theory Spec2Isabelle
  imports Complex_Main
begin

section \<open>send\_wecom.py: values, environment and results\<close>

text \<open>
  The script reads a JSON configuration file, asks the vendor for an access token,
  optionally uploads one attachment and sends one message. Everything it computes on
  is a value parsed from JSON or a command-line string, so the model has one type of
  Python values, \<open>json\<close>, with Python's own rules for truthiness, \<open>dict.get\<close>,
  subscripting, \<open>int()\<close> and comparison with \<open>0\<close>.

  A Python \<open>str\<close> and a Python \<open>bytes\<close> are both lists of characters; the script only
  tests strings for emptiness, compares them as dictionary keys and concatenates them.
  Turning one into the other, \<open>str.encode()\<close>, is left to the world below, since it
  raises on a string that has no UTF-8 form. A dictionary is an association list in
  insertion order; a lookup reads the first binding of a key, which is the only one in a
  dictionary that \<open>json.loads\<close> built.
\<close>

datatype pyfloat = Finite rat | PosInf | NegInf | NaN

datatype json =
    JNull
  | JBool bool
  | JInt int
  | JFloat pyfloat
  | JStr string
  | JArr "json list"
  | JObj "(string \<times> json) list"

datatype exn =
    AttributeError
  | KeyError string
  | TypeError
  | ValueError
  | OverflowError
  | JSONDecodeError
  | UnicodeEncodeError
  | OSError
  | URLError

text \<open>
  A formatted string keeps its interpolated values apart from its literal text:
  \<open>Fmt v\<close> is \<open>str(v)\<close> of a Python value, \<open>FmtPath p\<close> is \<open>str(Path(p))\<close>.
\<close>

datatype piece = Lit string | Fmt json | FmtPath string

text \<open>
  The three ways the process ends early, each with a message on the error stream:
  \<open>sys.exit(msg)\<close> (status 1), \<open>parser.error(msg)\<close> (status 2) and an exception
  nobody catches (a traceback, status 1).
\<close>

datatype failure =
    SysExit "piece list"
  | ParserError string
  | Uncaught exn

fun exit_code :: "failure \<Rightarrow> nat" where
  "exit_code (SysExit m) = 1"
| "exit_code (ParserError m) = 2"
| "exit_code (Uncaught e) = 1"

subsection \<open>Python's operations on parsed values\<close>

fun truthy :: "json \<Rightarrow> bool" where
  "truthy JNull = False"
| "truthy (JBool b) = b"
| "truthy (JInt n) = (n \<noteq> 0)"
| "truthy (JFloat x) = (x \<noteq> Finite 0)"
| "truthy (JStr s) = (s \<noteq> [])"
| "truthy (JArr xs) = (xs \<noteq> [])"
| "truthy (JObj kvs) = (kvs \<noteq> [])"

text \<open>\<open>d.get(k, default)\<close>: only a dictionary has the method.\<close>

fun py_get :: "json \<Rightarrow> string \<Rightarrow> json \<Rightarrow> exn + json" where
  "py_get (JObj kvs) k d = Inr (case map_of kvs k of None \<Rightarrow> d | Some v \<Rightarrow> v)"
| "py_get v k d = Inl AttributeError"

text \<open>\<open>d[k]\<close> with a string key.\<close>

fun py_index :: "json \<Rightarrow> string \<Rightarrow> exn + json" where
  "py_index (JObj kvs) k = (case map_of kvs k of None \<Rightarrow> Inl (KeyError k) | Some v \<Rightarrow> Inr v)"
| "py_index v k = Inl TypeError"

text \<open>\<open>v != 0\<close>: numbers and booleans compare by value, anything else differs from 0.\<close>

fun ne_zero :: "json \<Rightarrow> bool" where
  "ne_zero (JInt n) = (n \<noteq> 0)"
| "ne_zero (JBool b) = b"
| "ne_zero (JFloat x) = (x \<noteq> Finite 0)"
| "ne_zero v = True"

text \<open>
  \<open>int(v)\<close>. Reading a string as an integer is the library's work and is a parameter
  (\<open>None\<close> where \<open>int\<close> raises ValueError); a float is truncated towards zero.
\<close>

fun py_int :: "(string \<Rightarrow> int option) \<Rightarrow> json \<Rightarrow> exn + int" where
  "py_int ios JNull = Inl TypeError"
| "py_int ios (JBool b) = Inr (if b then 1 else 0)"
| "py_int ios (JInt n) = Inr n"
| "py_int ios (JFloat (Finite r)) = Inr (if 0 \<le> r then \<lfloor>r\<rfloor> else \<lceil>r\<rceil>)"
| "py_int ios (JFloat NaN) = Inl ValueError"
| "py_int ios (JFloat PosInf) = Inl OverflowError"
| "py_int ios (JFloat NegInf) = Inl OverflowError"
| "py_int ios (JStr s) = (case ios s of None \<Rightarrow> Inl ValueError | Some n \<Rightarrow> Inr n)"
| "py_int ios (JArr xs) = Inl TypeError"
| "py_int ios (JObj kvs) = Inl TypeError"

text \<open>Truthiness of a command-line value, which is \<open>None\<close> or a \<open>str\<close>.\<close>

fun given :: "string option \<Rightarrow> bool" where
  "given None = False"
| "given (Some s) = (s \<noteq> [])"

fun arg_value :: "string option \<Rightarrow> json" where
  "arg_value None = JNull"
| "arg_value (Some s) = JStr s"

subsection \<open>Requests, the world, and a run\<close>

text \<open>
  A request body is either raw bytes or \<open>json.dumps(payload).encode()\<close>; the model keeps
  the payload that the library serialises.
\<close>

datatype body = Bytes string | JsonDoc json

record request =
  url :: "piece list"
  body :: "body option"
  headers :: "(string \<times> string) list"
  timeout :: nat

datatype opener = Direct | ViaProxy json

datatype reply = OpenRaises exn | NotJson | Body json

datatype config_file = NoFile | Unreadable exn | Parsed json

text \<open>
  All that lies outside the script: the configuration file as \<open>json.loads\<close> reads it,
  the file system, the random boundary, the answers of the network, and the library
  functions whose results the script passes on. Every call that can raise has its
  exception among its results: \<open>Path.exists()\<close>, \<open>mimetypes.guess_type\<close>,
  \<open>read_bytes()\<close>, \<open>str.encode()\<close>, and \<open>print\<close>, which raises when standard output
  cannot encode the line (\<open>print_line w line = Some e\<close>). \<open>Unreadable e\<close> is any
  exception on the way to the parsed configuration (\<open>Path.home()\<close>, \<open>exists()\<close>,
  \<open>read_text()\<close>, \<open>json.loads\<close>). The answer to a request is a function of the opener
  and the request; a run issues no request twice. \<open>OpenRaises\<close> stands for any
  exception of \<open>opener.open\<close> or \<open>resp.read()\<close> (a timeout among them), \<open>NotJson\<close> for
  a body that \<open>json.loads\<close> rejects.
\<close>

record world =
  config_file :: config_file
  int_of_str :: "string \<Rightarrow> int option"
  path_exists :: "string \<Rightarrow> exn + bool"
  path_name :: "string \<Rightarrow> string"
  guess_type :: "string \<Rightarrow> exn + string option"
  read_bytes :: "string \<Rightarrow> exn + string"
  str_encode :: "string \<Rightarrow> exn + string"
  uuid4_hex :: string
  open_url :: "opener \<Rightarrow> request \<Rightarrow> reply"
  print_line :: "json \<Rightarrow> exn option"

text \<open>The command line as typed, and the namespace \<open>parse_args\<close> makes of it.\<close>

record cli =
  cli_message :: "string option"
  cli_to :: "string option"
  cli_image :: "string option"
  cli_file :: "string option"

record args =
  args_message :: "string option"
  args_to :: string
  args_image :: "string option"
  args_file :: "string option"

definition parse_args :: "cli \<Rightarrow> args" where
  "parse_args c =
     \<lparr>args_message = cli_message c,
      args_to = (case cli_to c of None \<Rightarrow> ''LiXueHeng'' | Some t \<Rightarrow> t),
      args_image = cli_image c,
      args_file = cli_file c\<rparr>"

text \<open>
  What a run leaves behind: the requests handed to \<open>opener.open\<close>, in order, the lines
  printed on standard output, and how it ended (\<open>None\<close>: \<open>main\<close> returned).
\<close>

record run =
  calls :: "(opener \<times> request) list"
  stdout :: "json list"
  ending :: "failure option"

definition status :: "run \<Rightarrow> nat" where
  "status r = (case ending r of None \<Rightarrow> 0 | Some f \<Rightarrow> exit_code f)"

definition aborted :: "(opener \<times> request) list \<Rightarrow> failure \<Rightarrow> run" where
  "aborted cs f = \<lparr>calls = cs, stdout = [], ending = Some f\<rparr>"

text \<open>
  \<open>print(json.dumps(result, ensure_ascii=False))\<close> as the last statement of a run that
  issued the requests \<open>cs\<close>: the line is written and \<open>main\<close> returns, unless \<open>print\<close>
  raises, which nobody catches.
\<close>

definition print_result :: "world \<Rightarrow> (opener \<times> request) list \<Rightarrow> json \<Rightarrow> run" where
  "print_result w cs line =
     (case print_line w line of
        None \<Rightarrow> \<lparr>calls = cs, stdout = [line], ending = None\<rparr>
      | Some e \<Rightarrow> aborted cs (Uncaught e))"

section \<open>The functions of the script\<close>

text \<open>An exception raised inside an expression leaves the function uncaught.\<close>

definition raising :: "exn + 'a \<Rightarrow> ('a \<Rightarrow> failure + 'b) \<Rightarrow> failure + 'b" where
  "raising x f = (case x of Inl e \<Rightarrow> Inl (Uncaught e) | Inr v \<Rightarrow> f v)"

text \<open>\<open>data.get("env", {}).get("vars", {})\<close>\<close>

definition env_vars :: "json \<Rightarrow> exn + json" where
  "env_vars data =
     (case py_get data ''env'' (JObj []) of
        Inl e \<Rightarrow> Inl e
      | Inr env_section \<Rightarrow> py_get env_section ''vars'' (JObj []))"

definition load_config :: "world \<Rightarrow> failure + (json \<times> json \<times> int \<times> json)" where
  "load_config w =
     (case config_file w of
        NoFile \<Rightarrow> Inl (SysExit [Lit ''Error: ~/.openclaw/openclaw.json not found''])
      | Unreadable e \<Rightarrow> Inl (Uncaught e)
      | Parsed data \<Rightarrow>
          raising (env_vars data) (\<lambda>env.
          raising (py_get env ''WECOM_CORP_ID'' JNull) (\<lambda>corp_id.
          raising (py_get env ''WECOM_CORP_SECRET'' JNull) (\<lambda>corp_secret.
          raising (py_get env ''WECOM_AGENT_ID'' JNull) (\<lambda>agent_id.
          raising (py_get env ''WECOM_PROXY'' (JStr [])) (\<lambda>proxy.
            if \<not> (truthy corp_id \<and> truthy corp_secret \<and> truthy agent_id)
            then Inl (SysExit [Lit ''Error: Missing WECOM_CORP_ID/CORP_SECRET/AGENT_ID in config''])
            else raising (py_int (int_of_str w) agent_id) (\<lambda>n.
              Inr (corp_id, corp_secret, n, proxy))))))))"

text \<open>
  \<open>resp = opener.open(req, timeout=t); data = json.loads(resp.read())\<close>, the two lines
  every network function shares.
\<close>

definition open_json :: "world \<Rightarrow> opener \<Rightarrow> request \<Rightarrow> exn + json" where
  "open_json w opener req =
     (case open_url w opener req of
        OpenRaises e \<Rightarrow> Inl e
      | NotJson \<Rightarrow> Inl JSONDecodeError
      | Body data \<Rightarrow> Inr data)"

text \<open>
  Each network function returns its result together with the requests it handed to
  \<open>opener.open\<close>; a request counts as issued whatever comes back.
\<close>

definition get_access_token ::
  "world \<Rightarrow> json \<Rightarrow> json \<Rightarrow> opener \<Rightarrow> (failure + json) \<times> (opener \<times> request) list" where
  "get_access_token w corp_id corp_secret opener =
     (let req = \<lparr>url = [Lit ''https://qyapi.weixin.qq.com/cgi-bin/gettoken?corpid='', Fmt corp_id,
                         Lit ''&corpsecret='', Fmt corp_secret],
                  body = None, headers = [], timeout = 10\<rparr>
      in (raising (open_json w opener req) (\<lambda>data.
          raising (py_get data ''errcode'' (JInt 0)) (\<lambda>errcode.
            if ne_zero errcode then Inl (SysExit [Lit ''Error getting token: '', Fmt data])
            else raising (py_index data ''access_token'') Inr)),
          [(opener, req)]))"

definition crlf :: string where
  "crlf = [CHR 0x0D, CHR 0x0A]"

definition upload_media ::
  "world \<Rightarrow> json \<Rightarrow> string option \<Rightarrow> string \<Rightarrow> opener \<Rightarrow> (failure + json) \<times> (opener \<times> request) list" where
  "upload_media w access_token file_path media_type opener =
     (case file_path of
        None \<Rightarrow> (Inl (Uncaught TypeError), [])
      | Some path \<Rightarrow>
          (case path_exists w path of
             Inl e \<Rightarrow> (Inl (Uncaught e), [])
           | Inr found \<Rightarrow>
               if \<not> found then (Inl (SysExit [Lit ''Error: File not found: '', FmtPath path]), [])
               else
                 let filename = path_name w path in
                 (case guess_type w path of
                    Inl e \<Rightarrow> (Inl (Uncaught e), [])
                  | Inr guessed \<Rightarrow>
                      let content_type = (case guessed of
                                            None \<Rightarrow> ''application/octet-stream''
                                          | Some t \<Rightarrow> if t = [] then ''application/octet-stream'' else t)
                      in (case read_bytes w path of
                            Inl e \<Rightarrow> (Inl (Uncaught e), [])
                          | Inr file_data \<Rightarrow>
                              let boundary = uuid4_hex w in
                              (case str_encode w (''--'' @ boundary @ crlf
                                      @ ''Content-Disposition: form-data; name='' @ [CHR 0x22] @ ''media'' @ [CHR 0x22]
                                      @ ''; filename='' @ [CHR 0x22] @ filename @ [CHR 0x22] @ crlf
                                      @ ''Content-Type: '' @ content_type @ crlf @ crlf) of
                                 Inl e \<Rightarrow> (Inl (Uncaught e), [])
                               | Inr head \<Rightarrow>
                                   (case str_encode w (crlf @ ''--'' @ boundary @ ''--'' @ crlf) of
                                      Inl e \<Rightarrow> (Inl (Uncaught e), [])
                                    | Inr tail \<Rightarrow>
                                        let req = \<lparr>url = [Lit ''https://qyapi.weixin.qq.com/cgi-bin/media/upload?access_token='',
                                                          Fmt access_token, Lit ''&type='', Lit media_type],
                                                   body = Some (Bytes (head @ file_data @ tail)),
                                                   headers = [(''Content-Type'', ''multipart/form-data; boundary='' @ boundary)],
                                                   timeout = 30\<rparr>
                                        in (raising (open_json w opener req) (\<lambda>data.
                                            raising (py_get data ''errcode'' (JInt 0)) (\<lambda>errcode.
                                              if ne_zero errcode
                                              then Inl (SysExit [Lit ''Error uploading media: '', Fmt data])
                                              else raising (py_index data ''media_id'') Inr)),
                                            [(opener, req)])))))))"

definition send_text ::
  "world \<Rightarrow> json \<Rightarrow> int \<Rightarrow> string \<Rightarrow> json \<Rightarrow> opener \<Rightarrow> (failure + json) \<times> (opener \<times> request) list" where
  "send_text w access_token agent_id to_user text opener =
     (let payload = JObj [(''touser'', JStr to_user),
                          (''msgtype'', JStr ''text''),
                          (''agentid'', JInt agent_id),
                          (''text'', JObj [(''content'', text)]),
                          (''safe'', JInt 0)];
          req = \<lparr>url = [Lit ''https://qyapi.weixin.qq.com/cgi-bin/message/send?access_token='', Fmt access_token],
                 body = Some (JsonDoc payload),
                 headers = [(''Content-Type'', ''application/json'')],
                 timeout = 10\<rparr>
      in (raising (open_json w opener req) (\<lambda>data.
          raising (py_get data ''errcode'' (JInt 0)) (\<lambda>errcode.
            if ne_zero errcode then Inl (SysExit [Lit ''Error sending message: '', Fmt data])
            else Inr data)),
          [(opener, req)]))"

definition send_image ::
  "world \<Rightarrow> json \<Rightarrow> int \<Rightarrow> string \<Rightarrow> json \<Rightarrow> opener \<Rightarrow> (failure + json) \<times> (opener \<times> request) list" where
  "send_image w access_token agent_id to_user media_id opener =
     (let payload = JObj [(''touser'', JStr to_user),
                          (''msgtype'', JStr ''image''),
                          (''agentid'', JInt agent_id),
                          (''image'', JObj [(''media_id'', media_id)]),
                          (''safe'', JInt 0)];
          req = \<lparr>url = [Lit ''https://qyapi.weixin.qq.com/cgi-bin/message/send?access_token='', Fmt access_token],
                 body = Some (JsonDoc payload),
                 headers = [(''Content-Type'', ''application/json'')],
                 timeout = 10\<rparr>
      in (raising (open_json w opener req) (\<lambda>data.
          raising (py_get data ''errcode'' (JInt 0)) (\<lambda>errcode.
            if ne_zero errcode then Inl (SysExit [Lit ''Error sending image: '', Fmt data])
            else Inr data)),
          [(opener, req)]))"

definition send_file ::
  "world \<Rightarrow> json \<Rightarrow> int \<Rightarrow> string \<Rightarrow> json \<Rightarrow> opener \<Rightarrow> (failure + json) \<times> (opener \<times> request) list" where
  "send_file w access_token agent_id to_user media_id opener =
     (let payload = JObj [(''touser'', JStr to_user),
                          (''msgtype'', JStr ''file''),
                          (''agentid'', JInt agent_id),
                          (''file'', JObj [(''media_id'', media_id)]),
                          (''safe'', JInt 0)];
          req = \<lparr>url = [Lit ''https://qyapi.weixin.qq.com/cgi-bin/message/send?access_token='', Fmt access_token],
                 body = Some (JsonDoc payload),
                 headers = [(''Content-Type'', ''application/json'')],
                 timeout = 10\<rparr>
      in (raising (open_json w opener req) (\<lambda>data.
          raising (py_get data ''errcode'' (JInt 0)) (\<lambda>errcode.
            if ne_zero errcode then Inl (SysExit [Lit ''Error sending file: '', Fmt data])
            else Inr data)),
          [(opener, req)]))"

text \<open>
  \<open>main\<close> after \<open>parse_args\<close>. Any failure before the \<open>print\<close> leaves standard
  output empty.
\<close>

definition main :: "world \<Rightarrow> cli \<Rightarrow> run" where
  "main w c =
     (let args = parse_args c in
      if \<not> given (args_message args) \<and> \<not> given (args_image args) \<and> \<not> given (args_file args)
      then aborted [] (ParserError ''Must provide a message, --image, or --file'')
      else
        (case load_config w of
           Inl f \<Rightarrow> aborted [] f
         | Inr (corp_id, corp_secret, agent_id, proxy) \<Rightarrow>
            (let opener = (if truthy proxy then ViaProxy proxy else Direct) in
             (case get_access_token w corp_id corp_secret opener of
               (Inl f, c1) \<Rightarrow> aborted c1 f
             | (Inr token, c1) \<Rightarrow>
                if given (args_image args) then
                  (case upload_media w token (args_image args) ''image'' opener of
                     (Inl f, c2) \<Rightarrow> aborted (c1 @ c2) f
                   | (Inr media_id, c2) \<Rightarrow>
                       (case send_image w token agent_id (args_to args) media_id opener of
                          (Inl f, c3) \<Rightarrow> aborted (c1 @ c2 @ c3) f
                        | (Inr result, c3) \<Rightarrow>
                            (case py_get result ''msgid'' (JStr []) of
                               Inl e \<Rightarrow> aborted (c1 @ c2 @ c3) (Uncaught e)
                             | Inr msgid \<Rightarrow>
                                 print_result w (c1 @ c2 @ c3)
                                   (JObj [(''ok'', JBool True), (''type'', JStr ''image''),
                                          (''to'', JStr (args_to args)), (''media_id'', media_id),
                                          (''msgid'', msgid)]))))
                else if given (args_file args) then
                  (case upload_media w token (args_file args) ''file'' opener of
                     (Inl f, c2) \<Rightarrow> aborted (c1 @ c2) f
                   | (Inr media_id, c2) \<Rightarrow>
                       (case send_file w token agent_id (args_to args) media_id opener of
                          (Inl f, c3) \<Rightarrow> aborted (c1 @ c2 @ c3) f
                        | (Inr result, c3) \<Rightarrow>
                            (case py_get result ''msgid'' (JStr []) of
                               Inl e \<Rightarrow> aborted (c1 @ c2 @ c3) (Uncaught e)
                             | Inr msgid \<Rightarrow>
                                 print_result w (c1 @ c2 @ c3)
                                   (JObj [(''ok'', JBool True), (''type'', JStr ''file''),
                                          (''to'', JStr (args_to args)), (''media_id'', media_id),
                                          (''msgid'', msgid)]))))
                else
                  (case send_text w token agent_id (args_to args) (arg_value (args_message args)) opener of
                     (Inl f, c3) \<Rightarrow> aborted (c1 @ c3) f
                   | (Inr result, c3) \<Rightarrow>
                       (case py_get result ''msgid'' (JStr []) of
                          Inl e \<Rightarrow> aborted (c1 @ c3) (Uncaught e)
                        | Inr msgid \<Rightarrow>
                            print_result w (c1 @ c3)
                              (JObj [(''ok'', JBool True), (''type'', JStr ''text''),
                                     (''to'', JStr (args_to args)), (''msgid'', msgid)])))))))"

section \<open>Observing a run\<close>

text \<open>
  A request is told apart by the literal text its URL starts with: the token exchange,
  the media upload, or the message send.
\<close>

definition endpoint :: "opener \<times> request \<Rightarrow> string" where
  "endpoint c = (case url (snd c) of Lit s # rest \<Rightarrow> s | _ \<Rightarrow> [])"

definition token_url :: string where
  "token_url = ''https://qyapi.weixin.qq.com/cgi-bin/gettoken?corpid=''"

definition upload_url :: string where
  "upload_url = ''https://qyapi.weixin.qq.com/cgi-bin/media/upload?access_token=''"

definition send_url :: string where
  "send_url = ''https://qyapi.weixin.qq.com/cgi-bin/message/send?access_token=''"

text \<open>The JSON document a request carries, if it carries one.\<close>

definition payload :: "opener \<times> request \<Rightarrow> json option" where
  "payload c = (case body (snd c) of Some (JsonDoc p) \<Rightarrow> Some p | _ \<Rightarrow> None)"

text \<open>
  The attachment \<open>main\<close> selects: an image if \<open>--image\<close> is given, else a file if
  \<open>--file\<close> is given, else none (a text message).
\<close>

definition attachment :: "cli \<Rightarrow> (string \<times> string option) option" where
  "attachment c =
     (if given (cli_image c) then Some (''image'', cli_image c)
      else if given (cli_file c) then Some (''file'', cli_file c)
      else None)"

text \<open>Whether a value is a string.\<close>

fun is_str :: "json \<Rightarrow> bool" where
  "is_str (JStr s) = True"
| "is_str v = False"

text \<open>\<open>p[a][b]\<close>\<close>

definition nested :: "json \<Rightarrow> string \<Rightarrow> string \<Rightarrow> exn + json" where
  "nested p a b = (case py_index p a of Inl e \<Rightarrow> Inl e | Inr q \<Rightarrow> py_index q b)"

text \<open>A request with the \<open>touser\<close> field taken out of its JSON payload.\<close>

definition drop_touser :: "opener \<times> request \<Rightarrow> opener \<times> request" where
  "drop_touser c =
     (fst c,
      (snd c)\<lparr>body := (case body (snd c) of
                          Some (JsonDoc (JObj kvs)) \<Rightarrow>
                            Some (JsonDoc (JObj (filter (\<lambda>kv. fst kv \<noteq> ''touser'') kvs)))
                        | b \<Rightarrow> b)\<rparr>)"

section \<open>Names for the parts of the script\<close>

text \<open>
  The script builds its requests and payloads inline and repeats the same steps in each
  network function. The definitions below give these parts names for use in statements;
  the lemmas \<open>get_access_token_exchange\<close>, \<open>upload_media_exchange_found\<close>,
  \<open>send_text_exchange\<close>, \<open>send_image_exchange\<close> and \<open>send_file_exchange\<close> prove that
  the functions above are made of exactly these parts.
\<close>

definition send_media ::
  "string \<Rightarrow> world \<Rightarrow> json \<Rightarrow> int \<Rightarrow> string \<Rightarrow> json \<Rightarrow> opener
     \<Rightarrow> (failure + json) \<times> (opener \<times> request) list" where
  "send_media kind = (if kind = ''image'' then send_image else send_file)"

definition opener_of :: "json \<Rightarrow> opener" where
  "opener_of proxy = (if truthy proxy then ViaProxy proxy else Direct)"

text \<open>
  The steps the five network functions share: hand the request to the opener, parse the
  answer, leave with the function's error message when \<open>errcode\<close> is not 0, else go on
  with the parsed answer.
\<close>

definition exchange ::
  "world \<Rightarrow> opener \<Rightarrow> request \<Rightarrow> string \<Rightarrow> (json \<Rightarrow> failure + json)
     \<Rightarrow> (failure + json) \<times> (opener \<times> request) list" where
  "exchange w opener req prefix k =
     (raising (open_json w opener req) (\<lambda>data.
      raising (py_get data ''errcode'' (JInt 0)) (\<lambda>errcode.
        if ne_zero errcode then Inl (SysExit [Lit prefix, Fmt data]) else k data)),
      [(opener, req)])"

definition token_request :: "json \<Rightarrow> json \<Rightarrow> request" where
  "token_request corp_id corp_secret =
     \<lparr>url = [Lit ''https://qyapi.weixin.qq.com/cgi-bin/gettoken?corpid='', Fmt corp_id,
             Lit ''&corpsecret='', Fmt corp_secret],
      body = None, headers = [], timeout = 10\<rparr>"

definition multipart_head :: "string \<Rightarrow> string \<Rightarrow> string \<Rightarrow> string" where
  "multipart_head boundary filename content_type =
     ''--'' @ boundary @ crlf
     @ ''Content-Disposition: form-data; name='' @ [CHR 0x22] @ ''media'' @ [CHR 0x22]
     @ ''; filename='' @ [CHR 0x22] @ filename @ [CHR 0x22] @ crlf
     @ ''Content-Type: '' @ content_type @ crlf @ crlf"

definition multipart_tail :: "string \<Rightarrow> string" where
  "multipart_tail boundary = crlf @ ''--'' @ boundary @ ''--'' @ crlf"

definition content_type_of :: "string option \<Rightarrow> string" where
  "content_type_of guessed =
     (case guessed of
        None \<Rightarrow> ''application/octet-stream''
      | Some t \<Rightarrow> if t = [] then ''application/octet-stream'' else t)"

definition upload_request :: "json \<Rightarrow> string \<Rightarrow> string \<Rightarrow> string \<Rightarrow> request" where
  "upload_request access_token media_type boundary body_bytes =
     \<lparr>url = [Lit ''https://qyapi.weixin.qq.com/cgi-bin/media/upload?access_token='',
             Fmt access_token, Lit ''&type='', Lit media_type],
      body = Some (Bytes body_bytes),
      headers = [(''Content-Type'', ''multipart/form-data; boundary='' @ boundary)],
      timeout = 30\<rparr>"

definition send_request :: "json \<Rightarrow> json \<Rightarrow> request" where
  "send_request access_token p =
     \<lparr>url = [Lit ''https://qyapi.weixin.qq.com/cgi-bin/message/send?access_token='', Fmt access_token],
      body = Some (JsonDoc p),
      headers = [(''Content-Type'', ''application/json'')],
      timeout = 10\<rparr>"

definition message_payload :: "string \<Rightarrow> int \<Rightarrow> string \<Rightarrow> string \<Rightarrow> json \<Rightarrow> json" where
  "message_payload msgtype agent_id to_user key v =
     JObj [(''touser'', JStr to_user), (''msgtype'', JStr msgtype), (''agentid'', JInt agent_id),
           (msgtype, JObj [(key, v)]), (''safe'', JInt 0)]"

section \<open>A sample world\<close>

text \<open>
  A configuration file with the given \<open>env.vars\<close>, a vendor that answers each endpoint
  with a fixed reply, one existing attachment \<open>a.png\<close>, an \<open>int()\<close> that is asked
  for one string only, and an \<open>encode\<close> and a \<open>print\<close> that never raise.
\<close>

definition config_with :: "(string \<times> json) list \<Rightarrow> config_file" where
  "config_with vars = Parsed (JObj [(''env'', JObj [(''vars'', JObj vars)])])"

definition sample_vars :: "(string \<times> json) list" where
  "sample_vars = [(''WECOM_CORP_ID'', JStr ''ww1''), (''WECOM_CORP_SECRET'', JStr ''s3''),
                  (''WECOM_AGENT_ID'', JStr ''1000002'')]"

definition vendor :: "reply \<Rightarrow> reply \<Rightarrow> reply \<Rightarrow> opener \<Rightarrow> request \<Rightarrow> reply" where
  "vendor token_reply upload_reply send_reply opener req =
     (if endpoint (opener, req) = token_url then token_reply
      else if endpoint (opener, req) = upload_url then upload_reply
      else send_reply)"

definition sample_world :: "config_file \<Rightarrow> (opener \<Rightarrow> request \<Rightarrow> reply) \<Rightarrow> world" where
  "sample_world cf net =
     \<lparr>config_file = cf,
      int_of_str = (\<lambda>s. if s = ''1000002'' then Some 1000002 else None),
      path_exists = (\<lambda>p. Inr (p = ''a.png'')),
      path_name = (\<lambda>p. p),
      guess_type = (\<lambda>p. Inr (if p = ''a.png'' then Some ''image/png'' else None)),
      read_bytes = (\<lambda>p. if p = ''a.png'' then Inr ''PNG'' else Inl OSError),
      str_encode = Inr,
      uuid4_hex = ''0f0e'',
      open_url = net,
      print_line = (\<lambda>line. None)\<rparr>"

definition sample_upload :: "string \<Rightarrow> request" where
  "sample_upload kind =
     upload_request (JStr ''T0'') kind ''0f0e''
       (multipart_head ''0f0e'' ''a.png'' ''image/png'' @ ''PNG'' @ multipart_tail ''0f0e'')"

definition token_ok :: reply where
  "token_ok = Body (JObj [(''errcode'', JInt 0), (''access_token'', JStr ''T0'')])"

definition upload_ok :: reply where
  "upload_ok = Body (JObj [(''errcode'', JInt 0), (''media_id'', JStr ''M0'')])"

definition send_ok :: reply where
  "send_ok = Body (JObj [(''errcode'', JInt 0), (''msgid'', JStr ''id0'')])"

definition text_cli :: cli where
  "text_cli = \<lparr>cli_message = Some ''hi'', cli_to = None, cli_image = None, cli_file = None\<rparr>"

definition vendor_error :: json where
  "vendor_error = JObj [(''errcode'', JInt 40013), (''errmsg'', JStr ''invalid corpid'')]"

definition image_cli :: cli where
  "image_cli = \<lparr>cli_message = None, cli_to = None, cli_image = Some ''a.png'', cli_file = None\<rparr>"

definition send_no_msgid :: reply where
  "send_no_msgid = Body (JObj [(''errcode'', JInt 0), (''errmsg'', JStr ''ok'')])"

definition upload_number :: reply where
  "upload_number = Body (JObj [(''errcode'', JInt 0), (''media_id'', JInt 42)])"

definition send_null :: reply where
  "send_null = Body (JObj [(''errcode'', JInt 0), (''msgid'', JNull)])"

definition every_cli :: cli where
  "every_cli = \<lparr>cli_message = Some ''hi'', cli_to = None, cli_image = Some ''a.png'', cli_file = Some ''a.png''\<rparr>"

section \<open>Basic facts\<close>

lemma py_get_Inl: "py_get v k d = Inl e \<Longrightarrow> e = AttributeError"
  by (cases v) simp_all

lemma env_vars_Inl: "env_vars data = Inl e \<Longrightarrow> e = AttributeError"
  by (auto simp: env_vars_def split: sum.splits dest: py_get_Inl)

lemma main_no_input:
  "\<not> given (cli_message c) \<Longrightarrow> \<not> given (cli_image c) \<Longrightarrow> \<not> given (cli_file c) \<Longrightarrow>
   main w c = aborted [] (ParserError ''Must provide a message, --image, or --file'')"
  by (simp add: main_def parse_args_def Let_def)

lemma main_config_failure:
  "load_config w = Inl f \<Longrightarrow> given (cli_message c) \<or> given (cli_image c) \<or> given (cli_file c) \<Longrightarrow>
   main w c = aborted [] f"
  by (auto simp: main_def parse_args_def Let_def)

lemma calls_print_result [simp]: "calls (print_result w cs line) = cs"
  by (simp add: print_result_def aborted_def split: option.splits)

lemma print_result_returns:
  "ending (print_result w cs line) = None \<Longrightarrow>
   print_result w cs line = \<lparr>calls = cs, stdout = [line], ending = None\<rparr>"
  by (simp add: print_result_def aborted_def split: option.splits)

section \<open>Missing credentials\<close>

lemma load_config_absent:
  assumes "config_file w = Parsed data"
    and "k \<in> {''WECOM_CORP_ID'', ''WECOM_CORP_SECRET'', ''WECOM_AGENT_ID''}"
    and "\<forall>vars. env_vars data = Inr (JObj vars) \<longrightarrow> map_of vars k = None"
  shows "load_config w = Inl (Uncaught AttributeError)
       \<or> load_config w = Inl (SysExit [Lit ''Error: Missing WECOM_CORP_ID/CORP_SECRET/AGENT_ID in config''])"
proof (cases "env_vars data")
  case (Inl e)
  then have "e = AttributeError" by (rule env_vars_Inl)
  with Inl assms(1) show ?thesis by (simp add: load_config_def raising_def)
next
  case (Inr env)
  show ?thesis
  proof (cases env)
    case (JObj vars)
    with Inr assms(3) have "map_of vars k = None" by simp
    with assms(2) JObj Inr assms(1) show ?thesis
      by (auto simp: load_config_def raising_def)
  qed (use Inr assms(1) in \<open>simp_all add: load_config_def raising_def\<close>)
qed

lemma load_config_absent_dict:
  assumes "config_file w = Parsed data"
    and "k \<in> {''WECOM_CORP_ID'', ''WECOM_CORP_SECRET'', ''WECOM_AGENT_ID''}"
    and "env_vars data = Inr (JObj vars)" and "map_of vars k = None"
  shows "load_config w = Inl (SysExit [Lit ''Error: Missing WECOM_CORP_ID/CORP_SECRET/AGENT_ID in config''])"
  using assms by (auto simp: load_config_def raising_def)

text \<open>
  C1. Whenever the configuration file has no \<open>env.vars\<close> mapping that binds one of
  WECOM\_CORP\_ID, WECOM\_CORP\_SECRET, WECOM\_AGENT\_ID, \<open>main\<close> ends with a non-zero
  exit status and a failure message, having issued no request at all and printed
  nothing. Where \<open>env.vars\<close> is a mapping (present or defaulted to the empty one), the
  failure is the missing-credentials exit of \<open>load_config\<close>, unless the command line
  named no message and no attachment, which \<open>parser.error\<close> rejects even earlier.
\<close>

theorem missing_credential_aborts_before_any_call:
  assumes "config_file w = Parsed data"
    and "k \<in> {''WECOM_CORP_ID'', ''WECOM_CORP_SECRET'', ''WECOM_AGENT_ID''}"
    and "\<forall>vars. env_vars data = Inr (JObj vars) \<longrightarrow> map_of vars k = None"
  shows "calls (main w c) = [] \<and> stdout (main w c) = [] \<and> status (main w c) \<noteq> 0
       \<and> (\<exists>f. ending (main w c) = Some f)
       \<and> (\<forall>vars. env_vars data = Inr (JObj vars) \<longrightarrow>
            ending (main w c) = Some
              (if \<not> given (cli_message c) \<and> \<not> given (cli_image c) \<and> \<not> given (cli_file c)
               then ParserError ''Must provide a message, --image, or --file''
               else SysExit [Lit ''Error: Missing WECOM_CORP_ID/CORP_SECRET/AGENT_ID in config'']))"
proof (cases "\<not> given (cli_message c) \<and> \<not> given (cli_image c) \<and> \<not> given (cli_file c)")
  case True
  then have "main w c = aborted [] (ParserError ''Must provide a message, --image, or --file'')"
    by (simp add: main_no_input)
  with True show ?thesis by (simp add: aborted_def status_def)
next
  case False
  then have g: "given (cli_message c) \<or> given (cli_image c) \<or> given (cli_file c)" by blast
  from load_config_absent[OF assms] obtain f where f: "load_config w = Inl f" "exit_code f \<noteq> 0"
    by auto
  have m: "main w c = aborted [] f" using f(1) g by (rule main_config_failure)
  have "ending (main w c) = Some (SysExit [Lit ''Error: Missing WECOM_CORP_ID/CORP_SECRET/AGENT_ID in config''])"
    if "env_vars data = Inr (JObj vars)" for vars
  proof -
    from assms(3) that have "map_of vars k = None" by simp
    from load_config_absent_dict[OF assms(1,2) that this] f(1) m show ?thesis
      by (simp add: aborted_def)
  qed
  with m f(2) g show ?thesis by (auto simp: aborted_def status_def)
qed

theorem missing_credential_aborts_before_any_call_witness:
  "config_file (sample_world (config_with [(''WECOM_CORP_ID'', JStr ''ww1''), (''WECOM_AGENT_ID'', JStr ''1000002'')])
                             (vendor token_ok upload_ok send_ok))
     = Parsed (JObj [(''env'', JObj [(''vars'', JObj [(''WECOM_CORP_ID'', JStr ''ww1''),
                                                      (''WECOM_AGENT_ID'', JStr ''1000002'')])])])
   \<and> ''WECOM_CORP_SECRET'' \<in> {''WECOM_CORP_ID'', ''WECOM_CORP_SECRET'', ''WECOM_AGENT_ID''}
   \<and> env_vars (JObj [(''env'', JObj [(''vars'', JObj [(''WECOM_CORP_ID'', JStr ''ww1''),
                                                       (''WECOM_AGENT_ID'', JStr ''1000002'')])])])
       = Inr (JObj [(''WECOM_CORP_ID'', JStr ''ww1''), (''WECOM_AGENT_ID'', JStr ''1000002'')])
   \<and> map_of [(''WECOM_CORP_ID'', JStr ''ww1''), (''WECOM_AGENT_ID'', JStr ''1000002'')] ''WECOM_CORP_SECRET'' = None
   \<and> calls (main (sample_world (config_with [(''WECOM_CORP_ID'', JStr ''ww1''), (''WECOM_AGENT_ID'', JStr ''1000002'')])
                                (vendor token_ok upload_ok send_ok)) text_cli) = []
   \<and> status (main (sample_world (config_with [(''WECOM_CORP_ID'', JStr ''ww1''), (''WECOM_AGENT_ID'', JStr ''1000002'')])
                                 (vendor token_ok upload_ok send_ok)) text_cli) \<noteq> 0
   \<and> ending (main (sample_world (config_with [(''WECOM_CORP_ID'', JStr ''ww1''), (''WECOM_AGENT_ID'', JStr ''1000002'')])
                                 (vendor token_ok upload_ok send_ok)) text_cli)
       = Some (SysExit [Lit ''Error: Missing WECOM_CORP_ID/CORP_SECRET/AGENT_ID in config''])"
proof -
  let ?vars = "[(''WECOM_CORP_ID'', JStr ''ww1''), (''WECOM_AGENT_ID'', JStr ''1000002'')]"
  let ?data = "JObj [(''env'', JObj [(''vars'', JObj ?vars)])]"
  let ?w = "sample_world (config_with ?vars) (vendor token_ok upload_ok send_ok)"
  have h1: "config_file ?w = Parsed ?data" by (simp add: sample_world_def config_with_def)
  have h2: "''WECOM_CORP_SECRET'' \<in> {''WECOM_CORP_ID'', ''WECOM_CORP_SECRET'', ''WECOM_AGENT_ID''}" by simp
  have h3: "env_vars ?data = Inr (JObj ?vars)" by (simp add: env_vars_def)
  have h4: "map_of ?vars ''WECOM_CORP_SECRET'' = None" by simp
  have h5: "\<forall>vars. env_vars ?data = Inr (JObj vars) \<longrightarrow> map_of vars ''WECOM_CORP_SECRET'' = None"
    using h3 h4 by simp
  have g: "given (cli_message text_cli)" by (simp add: text_cli_def)
  show ?thesis
    using h1 h2 h3 h4 g missing_credential_aborts_before_any_call[OF h1 h2 h5, of text_cli]
    by simp
qed

section \<open>Which requests a function issues\<close>

lemmas sample_defs = sample_world_def config_with_def sample_vars_def vendor_def
  token_ok_def upload_ok_def send_ok_def send_no_msgid_def upload_number_def send_null_def text_cli_def image_cli_def every_cli_def vendor_error_def
  endpoint_def token_url_def upload_url_def send_url_def sample_upload_def upload_request_def
  multipart_head_def multipart_tail_def

lemmas script_defs = load_config_def env_vars_def raising_def open_json_def get_access_token_def Let_def

lemma endpoint_simps [simp]:
  "endpoint (op, \<lparr>url = Lit s # rest, body = b, headers = h, timeout = t\<rparr>) = s"
  by (simp add: endpoint_def)

lemma urls_distinct [simp]:
  "token_url \<noteq> upload_url" "token_url \<noteq> send_url" "upload_url \<noteq> send_url"
  "upload_url \<noteq> token_url" "send_url \<noteq> token_url" "send_url \<noteq> upload_url"
  by (simp_all add: token_url_def upload_url_def send_url_def)

lemma get_access_token_calls:
  "get_access_token w corp_id corp_secret op = (res, cs) \<Longrightarrow> map endpoint cs = [token_url]"
  by (auto simp: get_access_token_def Let_def token_url_def)

lemma upload_media_calls:
  "upload_media w token path kind op = (res, cs) \<Longrightarrow> cs = [] \<or> map endpoint cs = [upload_url]"
  by (auto simp: upload_media_def Let_def upload_url_def split: option.splits if_splits sum.splits)

lemma upload_media_missing:
  "path_exists w p \<noteq> Inr True \<Longrightarrow>
   upload_media w token (Some p) kind op =
     (Inl (case path_exists w p of
             Inl e \<Rightarrow> Uncaught e
           | Inr found \<Rightarrow> SysExit [Lit ''Error: File not found: '', FmtPath p]), [])"
  by (cases "path_exists w p") (auto simp: upload_media_def)

lemma send_text_calls:
  "send_text w token agent_id to_user text op = (res, cs) \<Longrightarrow> map endpoint cs = [send_url]"
  by (auto simp: send_text_def Let_def send_url_def)

lemma send_image_calls:
  "send_image w token agent_id to_user media_id op = (res, cs) \<Longrightarrow> map endpoint cs = [send_url]"
  by (auto simp: send_image_def Let_def send_url_def)

lemma send_file_calls:
  "send_file w token agent_id to_user media_id op = (res, cs) \<Longrightarrow> map endpoint cs = [send_url]"
  by (auto simp: send_file_def Let_def send_url_def)

section \<open>A missing attachment\<close>

lemma main_missing_attachment:
  assumes "(given (cli_image c) \<and> cli_image c = Some p) \<or>
           (\<not> given (cli_image c) \<and> given (cli_file c) \<and> cli_file c = Some p)"
    and "path_exists w p \<noteq> Inr True"
  shows "main w c =
     (case load_config w of
        Inl f \<Rightarrow> aborted [] f
      | Inr (corp_id, corp_secret, agent_id, proxy) \<Rightarrow>
          (case get_access_token w corp_id corp_secret (if truthy proxy then ViaProxy proxy else Direct) of
             (Inl f, c1) \<Rightarrow> aborted c1 f
           | (Inr token, c1) \<Rightarrow>
               aborted c1 (case path_exists w p of
                             Inl e \<Rightarrow> Uncaught e
                           | Inr found \<Rightarrow> SysExit [Lit ''Error: File not found: '', FmtPath p])))"
proof (cases "load_config w")
  case (Inl f)
  with assms(1) show ?thesis by (auto simp: main_def parse_args_def Let_def)
next
  case (Inr cfg)
  obtain corp_id corp_secret agent_id proxy where cfg: "cfg = (corp_id, corp_secret, agent_id, proxy)"
    by (cases cfg) auto
  obtain res c1 where t:
    "get_access_token w corp_id corp_secret (if truthy proxy then ViaProxy proxy else Direct) = (res, c1)"
    by (cases "get_access_token w corp_id corp_secret (if truthy proxy then ViaProxy proxy else Direct)") auto
  show ?thesis
  proof (cases res)
    case (Inl f)
    with Inr cfg t assms(1) show ?thesis by (auto simp: main_def parse_args_def Let_def)
  next
    case (Inr token)
    with \<open>load_config w = Inr cfg\<close> cfg t assms show ?thesis
      by (auto simp: main_def parse_args_def Let_def upload_media_missing)
  qed
qed

text \<open>
  C2. When the attachment that \<open>main\<close> selects (the \<open>--image\<close> path if one is given,
  else the \<open>--file\<close> path) is not found to exist (\<open>Path.exists()\<close> answers no, or
  raises), no upload request and no send request is ever issued, nothing is printed and
  the exit status is non-zero. If the configuration loads and the token exchange
  succeeds, the requests issued are exactly those of the token exchange, a single
  request to the token endpoint, and the run ends in
  \<open>sys.exit("Error: File not found: ...")\<close>, or in the exception of \<open>exists()\<close> if it
  raised one.
\<close>

theorem missing_attachment_aborts_before_upload:
  assumes "(given (cli_image c) \<and> cli_image c = Some p) \<or>
           (\<not> given (cli_image c) \<and> given (cli_file c) \<and> cli_file c = Some p)"
    and "path_exists w p \<noteq> Inr True"
  shows "upload_url \<notin> endpoint ` set (calls (main w c)) \<and> send_url \<notin> endpoint ` set (calls (main w c))
       \<and> stdout (main w c) = [] \<and> status (main w c) \<noteq> 0
       \<and> (\<forall>corp_id corp_secret agent_id proxy token cs.
            load_config w = Inr (corp_id, corp_secret, agent_id, proxy) \<longrightarrow>
            get_access_token w corp_id corp_secret (if truthy proxy then ViaProxy proxy else Direct)
              = (Inr token, cs) \<longrightarrow>
            calls (main w c) = cs \<and> map endpoint cs = [token_url]
            \<and> ending (main w c) =
                Some (case path_exists w p of
                        Inl e \<Rightarrow> Uncaught e
                      | Inr found \<Rightarrow> SysExit [Lit ''Error: File not found: '', FmtPath p]))"
proof -
  note m = main_missing_attachment[OF assms]
  show ?thesis
  proof (cases "load_config w")
    case (Inl f)
    with m have "main w c = aborted [] f" by simp
    then show ?thesis using Inl by (cases f) (simp_all add: aborted_def status_def)
  next
    case (Inr cfg)
    obtain corp_id corp_secret agent_id proxy where cfg: "cfg = (corp_id, corp_secret, agent_id, proxy)"
      by (cases cfg) auto
    obtain res c1 where t:
      "get_access_token w corp_id corp_secret (if truthy proxy then ViaProxy proxy else Direct) = (res, c1)"
      by (cases "get_access_token w corp_id corp_secret (if truthy proxy then ViaProxy proxy else Direct)") auto
    from get_access_token_calls[OF t] have e: "map endpoint c1 = [token_url]" .
    then have "set (map endpoint c1) = {token_url}" by simp
    then have e': "endpoint ` set c1 = {token_url}" by simp
    show ?thesis
    proof (cases res)
      case (Inl f)
      with m Inr cfg t have "main w c = aborted c1 f" by simp
      then show ?thesis using e' \<open>load_config w = Inr cfg\<close> cfg t Inl
        by (cases f) (simp_all add: aborted_def status_def)
    next
      case (Inr token)
      with m \<open>load_config w = Inr cfg\<close> cfg t
      have "main w c = aborted c1 (case path_exists w p of
                                     Inl e \<Rightarrow> Uncaught e
                                   | Inr found \<Rightarrow> SysExit [Lit ''Error: File not found: '', FmtPath p])"
        by simp
      then show ?thesis using e e' \<open>load_config w = Inr cfg\<close> cfg t Inr
        by (cases "path_exists w p") (simp_all add: aborted_def status_def)
    qed
  qed
qed

theorem missing_attachment_aborts_before_upload_witness:
  "given (cli_image \<lparr>cli_message = None, cli_to = None, cli_image = Some ''b.png'', cli_file = None\<rparr>)
   \<and> path_exists (sample_world (config_with sample_vars) (vendor token_ok upload_ok send_ok)) ''b.png'' = Inr False
   \<and> load_config (sample_world (config_with sample_vars) (vendor token_ok upload_ok send_ok))
        = Inr (JStr ''ww1'', JStr ''s3'', 1000002, JStr [])
   \<and> map endpoint (calls (main (sample_world (config_with sample_vars) (vendor token_ok upload_ok send_ok))
        \<lparr>cli_message = None, cli_to = None, cli_image = Some ''b.png'', cli_file = None\<rparr>)) = [token_url]
   \<and> ending (main (sample_world (config_with sample_vars) (vendor token_ok upload_ok send_ok))
        \<lparr>cli_message = None, cli_to = None, cli_image = Some ''b.png'', cli_file = None\<rparr>)
        = Some (SysExit [Lit ''Error: File not found: '', FmtPath ''b.png''])"
proof -
  let ?w = "sample_world (config_with sample_vars) (vendor token_ok upload_ok send_ok)"
  let ?c = "\<lparr>cli_message = None, cli_to = None, cli_image = Some ''b.png'', cli_file = None\<rparr>"
  let ?req = "\<lparr>url = [Lit ''https://qyapi.weixin.qq.com/cgi-bin/gettoken?corpid='', Fmt (JStr ''ww1''),
                         Lit ''&corpsecret='', Fmt (JStr ''s3'')],
                  body = None, headers = [], timeout = 10\<rparr>"
  have h1: "(given (cli_image ?c) \<and> cli_image ?c = Some ''b.png'') \<or>
            (\<not> given (cli_image ?c) \<and> given (cli_file ?c) \<and> cli_file ?c = Some ''b.png'')" by simp
  have h2': "path_exists ?w ''b.png'' = Inr False" by (simp add: sample_world_def)
  then have h2: "path_exists ?w ''b.png'' \<noteq> Inr True" by simp
  have h3: "load_config ?w = Inr (JStr ''ww1'', JStr ''s3'', 1000002, JStr [])"
    by (simp add: sample_defs script_defs)
  have h4: "get_access_token ?w (JStr ''ww1'') (JStr ''s3'') (if truthy (JStr []) then ViaProxy (JStr []) else Direct)
      = (Inr (JStr ''T0''), [(Direct, ?req)])"
    by (simp add: sample_defs script_defs)
  from missing_attachment_aborts_before_upload[OF h1 h2] h3 h4
  have "calls (main ?w ?c) = [(Direct, ?req)] \<and> map endpoint [(Direct, ?req)] = [token_url]
      \<and> ending (main ?w ?c) =
          Some (case path_exists ?w ''b.png'' of
                  Inl e \<Rightarrow> Uncaught e
                | Inr found \<Rightarrow> SysExit [Lit ''Error: File not found: '', FmtPath ''b.png''])"
    by blast
  with h1 h2' h3 show ?thesis by simp
qed

section \<open>The shape of a run\<close>

lemma py_get_Inr: "py_get v k d = Inr x \<Longrightarrow> \<exists>kvs. v = JObj kvs \<and> x = (case map_of kvs k of None \<Rightarrow> d | Some y \<Rightarrow> y)"
  by (cases v) auto

lemma ne_zero_iff: "ne_zero e \<longleftrightarrow> e \<notin> {JInt 0, JBool False, JFloat (Finite 0)}"
  by (cases e) auto

lemma exchange_calls: "exchange w op req prefix k = (res, cs) \<Longrightarrow> cs = [(op, req)]"
  by (auto simp: exchange_def)

lemma exchange_errcode:
  "exchange w op req prefix k = (res, cs) \<Longrightarrow> open_url w op req = Body (JObj kvs) \<Longrightarrow>
   map_of kvs ''errcode'' = Some e \<Longrightarrow> ne_zero e \<Longrightarrow> res = Inl (SysExit [Lit prefix, Fmt (JObj kvs)])"
  by (auto simp: exchange_def raising_def open_json_def)

lemma exchange_no_errcode:
  "exchange w op req prefix k = (res, cs) \<Longrightarrow> open_url w op req = Body (JObj kvs) \<Longrightarrow>
   map_of kvs ''errcode'' = None \<Longrightarrow> res = k (JObj kvs)"
  by (auto simp: exchange_def raising_def open_json_def)

lemma exchange_Inr:
  assumes "exchange w op req prefix k = (Inr x, cs)"
  shows "\<exists>kvs. open_url w op req = Body (JObj kvs) \<and> k (JObj kvs) = Inr x
       \<and> (\<forall>e. map_of kvs ''errcode'' = Some e \<longrightarrow> \<not> ne_zero e)"
proof (cases "open_url w op req")
  case (Body data)
  with assms obtain ec where ec: "py_get data ''errcode'' (JInt 0) = Inr ec" "\<not> ne_zero ec" "k data = Inr x"
    by (auto simp: exchange_def raising_def open_json_def split: sum.splits if_splits)
  from py_get_Inr[OF ec(1)] obtain kvs where "data = JObj kvs"
    "ec = (case map_of kvs ''errcode'' of None \<Rightarrow> JInt 0 | Some y \<Rightarrow> y)" by blast
  with ec Body show ?thesis by auto
qed (use assms in \<open>auto simp: exchange_def raising_def open_json_def\<close>)

lemma get_access_token_exchange:
  "get_access_token w corp_id corp_secret op =
     exchange w op (token_request corp_id corp_secret) ''Error getting token: ''
       (\<lambda>data. raising (py_index data ''access_token'') Inr)"
  by (simp add: get_access_token_def exchange_def token_request_def Let_def)

lemma send_text_exchange:
  "send_text w token agent_id to_user text op =
     exchange w op (send_request token (message_payload ''text'' agent_id to_user ''content'' text))
       ''Error sending message: '' Inr"
  by (simp add: send_text_def exchange_def send_request_def message_payload_def Let_def)

lemma send_image_exchange:
  "send_image w token agent_id to_user media_id op =
     exchange w op (send_request token (message_payload ''image'' agent_id to_user ''media_id'' media_id))
       ''Error sending image: '' Inr"
  by (simp add: send_image_def exchange_def send_request_def message_payload_def Let_def)

lemma send_file_exchange:
  "send_file w token agent_id to_user media_id op =
     exchange w op (send_request token (message_payload ''file'' agent_id to_user ''media_id'' media_id))
       ''Error sending file: '' Inr"
  by (simp add: send_file_def exchange_def send_request_def message_payload_def Let_def)

lemma upload_media_exchange:
  "upload_media w token (Some p) kind op = (res, cs) \<Longrightarrow> cs \<noteq> [] \<Longrightarrow>
   \<exists>req. endpoint (op, req) = upload_url \<and>
     (res, cs) = exchange w op req ''Error uploading media: '' (\<lambda>data. raising (py_index data ''media_id'') Inr)"
  by (auto simp: upload_media_def exchange_def Let_def upload_url_def endpoint_def split: if_splits sum.splits)


lemma send_media_Inr:
  "send_media kind w token agent_id to_user media_id op = (Inr result, cs) \<Longrightarrow> \<exists>kvs. result = JObj kvs"
  by (auto simp: send_media_def send_image_exchange send_file_exchange split: if_splits dest!: exchange_Inr)

lemma send_text_Inr:
  "send_text w token agent_id to_user text op = (Inr result, cs) \<Longrightarrow> \<exists>kvs. result = JObj kvs"
  by (auto simp: send_text_exchange dest!: exchange_Inr)

lemma main_cases [case_names no_input config_failed token_failed upload_failed media_send_failed media_sent
    text_send_failed text_sent]:
  obtains
    "\<not> given (cli_message c)" "\<not> given (cli_image c)" "\<not> given (cli_file c)"
      "main w c = aborted [] (ParserError ''Must provide a message, --image, or --file'')"
  | f where "load_config w = Inl f" "main w c = aborted [] f"
      "given (cli_message c) \<or> given (cli_image c) \<or> given (cli_file c)"
  | corp_id corp_secret agent_id proxy f c1 where
      "load_config w = Inr (corp_id, corp_secret, agent_id, proxy)"
      "get_access_token w corp_id corp_secret (opener_of proxy) = (Inl f, c1)"
      "main w c = aborted c1 f"
      "given (cli_message c) \<or> given (cli_image c) \<or> given (cli_file c)"
  | corp_id corp_secret agent_id proxy token c1 kind path f c2 where
      "load_config w = Inr (corp_id, corp_secret, agent_id, proxy)"
      "get_access_token w corp_id corp_secret (opener_of proxy) = (Inr token, c1)"
      "attachment c = Some (kind, path)"
      "upload_media w token path kind (opener_of proxy) = (Inl f, c2)"
      "main w c = aborted (c1 @ c2) f"
      "given (cli_message c) \<or> given (cli_image c) \<or> given (cli_file c)"
  | corp_id corp_secret agent_id proxy token c1 kind path media_id c2 f c3 where
      "load_config w = Inr (corp_id, corp_secret, agent_id, proxy)"
      "get_access_token w corp_id corp_secret (opener_of proxy) = (Inr token, c1)"
      "attachment c = Some (kind, path)"
      "upload_media w token path kind (opener_of proxy) = (Inr media_id, c2)"
      "send_media kind w token agent_id (args_to (parse_args c)) media_id (opener_of proxy) = (Inl f, c3)"
      "main w c = aborted (c1 @ c2 @ c3) f"
      "given (cli_message c) \<or> given (cli_image c) \<or> given (cli_file c)"
  | corp_id corp_secret agent_id proxy token c1 kind path media_id c2 kvs c3 where
      "load_config w = Inr (corp_id, corp_secret, agent_id, proxy)"
      "get_access_token w corp_id corp_secret (opener_of proxy) = (Inr token, c1)"
      "attachment c = Some (kind, path)"
      "upload_media w token path kind (opener_of proxy) = (Inr media_id, c2)"
      "send_media kind w token agent_id (args_to (parse_args c)) media_id (opener_of proxy) = (Inr (JObj kvs), c3)"
      "main w c = print_result w (c1 @ c2 @ c3)
                     (JObj [(''ok'', JBool True), (''type'', JStr kind),
                                   (''to'', JStr (args_to (parse_args c))), (''media_id'', media_id),
                                   (''msgid'', case map_of kvs ''msgid'' of None \<Rightarrow> JStr [] | Some v \<Rightarrow> v)])"
      "given (cli_message c) \<or> given (cli_image c) \<or> given (cli_file c)"
  | corp_id corp_secret agent_id proxy token c1 f c3 where
      "load_config w = Inr (corp_id, corp_secret, agent_id, proxy)"
      "get_access_token w corp_id corp_secret (opener_of proxy) = (Inr token, c1)"
      "attachment c = None"
      "send_text w token agent_id (args_to (parse_args c)) (arg_value (cli_message c)) (opener_of proxy) = (Inl f, c3)"
      "main w c = aborted (c1 @ c3) f"
      "given (cli_message c) \<or> given (cli_image c) \<or> given (cli_file c)"
  | corp_id corp_secret agent_id proxy token c1 kvs c3 where
      "load_config w = Inr (corp_id, corp_secret, agent_id, proxy)"
      "get_access_token w corp_id corp_secret (opener_of proxy) = (Inr token, c1)"
      "attachment c = None"
      "send_text w token agent_id (args_to (parse_args c)) (arg_value (cli_message c)) (opener_of proxy) = (Inr (JObj kvs), c3)"
      "main w c = print_result w (c1 @ c3)
                     (JObj [(''ok'', JBool True), (''type'', JStr ''text''),
                                   (''to'', JStr (args_to (parse_args c))),
                                   (''msgid'', case map_of kvs ''msgid'' of None \<Rightarrow> JStr [] | Some v \<Rightarrow> v)])"
      "given (cli_message c) \<or> given (cli_image c) \<or> given (cli_file c)"
proof (cases "\<not> given (cli_message c) \<and> \<not> given (cli_image c) \<and> \<not> given (cli_file c)")
  case True
  then show ?thesis using that(1) by (simp add: main_no_input)
next
  case input: False
  then have g: "given (cli_message c) \<or> given (cli_image c) \<or> given (cli_file c)" by blast
  show ?thesis
  proof (cases "load_config w")
    case (Inl f)
    then show ?thesis using that(2) main_config_failure[OF Inl g] g by blast
  next
    case (Inr cfg)
    obtain corp_id corp_secret agent_id proxy where cfg: "load_config w = Inr (corp_id, corp_secret, agent_id, proxy)"
      using Inr by (cases cfg) auto
    obtain res1 c1 where t: "get_access_token w corp_id corp_secret (opener_of proxy) = (res1, c1)"
      by (cases "get_access_token w corp_id corp_secret (opener_of proxy)") auto
    show ?thesis
    proof (cases res1)
      case (Inl f)
      have "main w c = aborted c1 f" using g cfg t Inl
        by (auto simp: main_def parse_args_def Let_def opener_of_def)
      with cfg t Inl show ?thesis using that(3) g by blast
    next
      case (Inr token)
      note tok = t[unfolded Inr]
      show ?thesis
      proof (cases "attachment c")
        case None
        then have na: "\<not> given (cli_image c)" "\<not> given (cli_file c)"
          by (auto simp: attachment_def split: if_splits)
        obtain res3 c3 where s: "send_text w token agent_id (args_to (parse_args c)) (arg_value (cli_message c)) (opener_of proxy) = (res3, c3)"
          by (cases "send_text w token agent_id (args_to (parse_args c)) (arg_value (cli_message c)) (opener_of proxy)") auto
        show ?thesis
        proof (cases res3)
          case (Inl f)
          have "main w c = aborted (c1 @ c3) f" using g cfg tok na s Inl
            by (auto simp: main_def Let_def opener_of_def parse_args_def)
          with cfg tok None s Inl show ?thesis using that(7) g by blast
        next
          case (Inr result)
          with s send_text_Inr obtain kvs where k: "result = JObj kvs" by blast
          have "main w c = print_result w (c1 @ c3)
                     (JObj [(''ok'', JBool True), (''type'', JStr ''text''),
                                   (''to'', JStr (args_to (parse_args c))),
                                   (''msgid'', case map_of kvs ''msgid'' of None \<Rightarrow> JStr [] | Some v \<Rightarrow> v)])" using g cfg tok na s Inr k
            by (auto simp: main_def Let_def opener_of_def parse_args_def)
          with cfg tok None s Inr k show ?thesis using that(8) g by blast
        qed
      next
        case (Some a)
        obtain kind path where a: "attachment c = Some (kind, path)" using Some by (cases a) auto
        obtain res2 c2 where u: "upload_media w token path kind (opener_of proxy) = (res2, c2)"
          by (cases "upload_media w token path kind (opener_of proxy)") auto
        show ?thesis
        proof (cases res2)
          case (Inl f)
          have "main w c = aborted (c1 @ c2) f" using cfg tok a u Inl
            by (auto simp: main_def Let_def opener_of_def parse_args_def attachment_def split: if_splits)
          with cfg tok a u Inl show ?thesis using that(4) g by blast
        next
          case (Inr media_id)
          obtain res3 c3 where s: "send_media kind w token agent_id (args_to (parse_args c)) media_id (opener_of proxy) = (res3, c3)"
            by (cases "send_media kind w token agent_id (args_to (parse_args c)) media_id (opener_of proxy)") auto
          show ?thesis
          proof (cases res3)
            case (Inl f)
            have "main w c = aborted (c1 @ c2 @ c3) f" using cfg tok a u \<open>res2 = Inr media_id\<close> s Inl
              by (auto simp: main_def Let_def opener_of_def parse_args_def attachment_def send_media_def split: if_splits)
            with cfg tok a u \<open>res2 = Inr media_id\<close> s Inl show ?thesis using that(5) g by blast
          next
            case res: (Inr result)
            with s send_media_Inr obtain kvs where k: "result = JObj kvs" by blast
            have "main w c = print_result w (c1 @ c2 @ c3)
                     (JObj [(''ok'', JBool True), (''type'', JStr kind),
                                   (''to'', JStr (args_to (parse_args c))), (''media_id'', media_id),
                                   (''msgid'', case map_of kvs ''msgid'' of None \<Rightarrow> JStr [] | Some v \<Rightarrow> v)])" using cfg tok a u \<open>res2 = Inr media_id\<close> s res k
              by (auto simp: main_def Let_def opener_of_def parse_args_def attachment_def send_media_def split: if_splits)
            with cfg tok a u \<open>res2 = Inr media_id\<close> s res k show ?thesis using that(6) g by blast
          qed
        qed
      qed
    qed
  qed
qed

section \<open>A vendor error code\<close>

lemma exchange_bad:
  assumes "exchange w op req prefix k = (res, cs)" "(op', req') \<in> set cs"
    "open_url w op' req' = Body (JObj kvs)" "map_of kvs ''errcode'' = Some e" "ne_zero e"
  shows "cs = [(op', req')] \<and> res = Inl (SysExit [Lit prefix, Fmt (JObj kvs)])"
proof -
  from exchange_calls[OF assms(1)] assms(2) have "cs = [(op', req')]" "op' = op" "req' = req" by auto
  with exchange_errcode[OF assms(1) _ assms(4,5)] assms(3) show ?thesis by simp
qed

lemma get_access_token_bad:
  assumes "get_access_token w corp_id corp_secret op = (res, cs)" "(op', req') \<in> set cs"
    "open_url w op' req' = Body (JObj kvs)" "map_of kvs ''errcode'' = Some e" "ne_zero e"
  shows "cs = [(op', req')] \<and> res = Inl (SysExit [Lit ''Error getting token: '', Fmt (JObj kvs)])"
  using assms(1) exchange_bad[OF _ assms(2-5)] by (simp add: get_access_token_exchange)

lemma upload_media_bad:
  assumes "upload_media w token path kind op = (res, cs)" "(op', req') \<in> set cs"
    "open_url w op' req' = Body (JObj kvs)" "map_of kvs ''errcode'' = Some e" "ne_zero e"
  shows "cs = [(op', req')] \<and> res = Inl (SysExit [Lit ''Error uploading media: '', Fmt (JObj kvs)])"
proof -
  from assms(2) have ne: "cs \<noteq> []" by auto
  with assms(1) obtain p where p: "path = Some p" by (cases path) (auto simp: upload_media_def)
  from upload_media_exchange[OF assms(1)[unfolded p] ne] obtain req where
    "(res, cs) = exchange w op req ''Error uploading media: '' (\<lambda>data. raising (py_index data ''media_id'') Inr)"
    by blast
  then have "exchange w op req ''Error uploading media: '' (\<lambda>data. raising (py_index data ''media_id'') Inr) = (res, cs)"
    by simp
  from exchange_bad[OF this assms(2-5)] show ?thesis .
qed

lemma send_text_bad:
  assumes "send_text w token agent_id to_user text op = (res, cs)" "(op', req') \<in> set cs"
    "open_url w op' req' = Body (JObj kvs)" "map_of kvs ''errcode'' = Some e" "ne_zero e"
  shows "cs = [(op', req')] \<and> res = Inl (SysExit [Lit ''Error sending message: '', Fmt (JObj kvs)])"
  using assms(1) exchange_bad[OF _ assms(2-5)] by (simp add: send_text_exchange)

lemma send_media_bad:
  assumes "send_media kind w token agent_id to_user media_id op = (res, cs)" "(op', req') \<in> set cs"
    "open_url w op' req' = Body (JObj kvs)" "map_of kvs ''errcode'' = Some e" "ne_zero e"
  shows "cs = [(op', req')] \<and> (res = Inl (SysExit [Lit ''Error sending image: '', Fmt (JObj kvs)])
          \<or> res = Inl (SysExit [Lit ''Error sending file: '', Fmt (JObj kvs)]))"
  using assms(1) exchange_bad[OF _ assms(2-5)]
  by (auto simp: send_media_def send_image_exchange send_file_exchange split: if_splits)

lemma send_media_calls:
  "send_media kind w token agent_id to_user media_id op = (res, cs) \<Longrightarrow> map endpoint cs = [send_url]"
  by (auto simp: send_media_def split: if_splits dest: send_image_calls send_file_calls)

lemma upload_media_calls_set:
  "upload_media w token path kind op = (res, cs) \<Longrightarrow> x \<in> set cs \<Longrightarrow> endpoint x = upload_url"
  using upload_media_calls[of w token path kind op res cs] by auto

lemma single_endpoint: "map endpoint cs = [u] \<Longrightarrow> x \<in> set cs \<Longrightarrow> endpoint x = u"
  by (cases cs) auto

text \<open>
  C3. Whenever a request that \<open>main\<close> issued is answered by a JSON object whose
  \<open>errcode\<close> is not 0 (anything but the integer 0, the float 0 or \<open>false\<close>, which are
  the values Python finds equal to 0), that request is the last one of the run and was
  issued once, nothing is printed on standard output, the exit status is non-zero, and
  the run ends in \<open>sys.exit\<close> with the message of the stage the request belongs to
  (token exchange, upload or send) followed by the parsed answer itself.
\<close>

theorem nonzero_errcode_aborts_at_that_stage:
  assumes call: "(op, req) \<in> set (calls (main w c))"
    and reply: "open_url w op req = Body (JObj kvs)"
    and code: "map_of kvs ''errcode'' = Some e"
    and nz: "e \<notin> {JInt 0, JBool False, JFloat (Finite 0)}"
  shows "\<exists>pre prefix. calls (main w c) = pre @ [(op, req)] \<and> (op, req) \<notin> set pre
       \<and> stdout (main w c) = [] \<and> status (main w c) \<noteq> 0
       \<and> ending (main w c) = Some (SysExit [Lit prefix, Fmt (JObj kvs)])
       \<and> (endpoint (op, req) = token_url \<longrightarrow> prefix = ''Error getting token: '')
       \<and> (endpoint (op, req) = upload_url \<longrightarrow> prefix = ''Error uploading media: '')
       \<and> (endpoint (op, req) = send_url \<longrightarrow>
            prefix \<in> {''Error sending message: '', ''Error sending image: '', ''Error sending file: ''})"
proof -
  from nz have nz': "ne_zero e" by (simp add: ne_zero_iff)
  note bad = reply code nz'
  show ?thesis
  proof (cases rule: main_cases[of c w])
    case no_input
    with call show ?thesis by (simp add: aborted_def)
  next
    case (config_failed f)
    with call show ?thesis by (simp add: aborted_def)
  next
    case (token_failed corp_id corp_secret agent_id proxy f c1)
    from call token_failed(3) have in1: "(op, req) \<in> set c1" by (simp add: aborted_def)
    from get_access_token_bad[OF token_failed(2) in1 bad] get_access_token_calls[OF token_failed(2)]
    have "c1 = [(op, req)]" "f = SysExit [Lit ''Error getting token: '', Fmt (JObj kvs)]"
      "endpoint (op, req) = token_url" by auto
    with token_failed(3) show ?thesis
      by (intro exI[of _ "[]"] exI[of _ "''Error getting token: ''"]) (simp add: aborted_def status_def)
  next
    case (upload_failed corp_id corp_secret agent_id proxy token c1 kind path f c2)
    have n1: "(op, req) \<notin> set c1"
      using get_access_token_bad[OF upload_failed(2) _ bad] by auto
    with call upload_failed(5) have in2: "(op, req) \<in> set c2" by (simp add: aborted_def)
    from upload_media_bad[OF upload_failed(4) in2 bad] upload_media_calls_set[OF upload_failed(4) in2]
    have "c2 = [(op, req)]" "f = SysExit [Lit ''Error uploading media: '', Fmt (JObj kvs)]"
      "endpoint (op, req) = upload_url" by auto
    with upload_failed(5) n1 show ?thesis
      by (intro exI[of _ c1] exI[of _ "''Error uploading media: ''"]) (simp add: aborted_def status_def)
  next
    case (media_send_failed corp_id corp_secret agent_id proxy token c1 kind path media_id c2 f c3)
    have n1: "(op, req) \<notin> set c1"
      using get_access_token_bad[OF media_send_failed(2) _ bad] by auto
    have n2: "(op, req) \<notin> set c2"
      using upload_media_bad[OF media_send_failed(4) _ bad] by auto
    with n1 call media_send_failed(6) have in3: "(op, req) \<in> set c3" by (simp add: aborted_def)
    from send_media_bad[OF media_send_failed(5) in3 bad] single_endpoint[OF send_media_calls[OF media_send_failed(5)] in3]
    have "c3 = [(op, req)]" "f = SysExit [Lit ''Error sending image: '', Fmt (JObj kvs)]
        \<or> f = SysExit [Lit ''Error sending file: '', Fmt (JObj kvs)]"
      "endpoint (op, req) = send_url" by auto
    with media_send_failed(6) n1 n2 show ?thesis
      by (intro exI[of _ "c1 @ c2"]) (auto simp: aborted_def status_def)
  next
    case (media_sent corp_id corp_secret agent_id proxy token c1 kind path media_id c2 kvs' c3)
    have "(op, req) \<notin> set c1" using get_access_token_bad[OF media_sent(2) _ bad] by auto
    moreover have "(op, req) \<notin> set c2" using upload_media_bad[OF media_sent(4) _ bad] by auto
    moreover have "(op, req) \<notin> set c3" using send_media_bad[OF media_sent(5) _ bad] by auto
    ultimately show ?thesis using call media_sent(6) by simp
  next
    case (text_send_failed corp_id corp_secret agent_id proxy token c1 f c3)
    have n1: "(op, req) \<notin> set c1"
      using get_access_token_bad[OF text_send_failed(2) _ bad] by auto
    with call text_send_failed(5) have in3: "(op, req) \<in> set c3" by (simp add: aborted_def)
    from send_text_bad[OF text_send_failed(4) in3 bad] single_endpoint[OF send_text_calls[OF text_send_failed(4)] in3]
    have "c3 = [(op, req)]" "f = SysExit [Lit ''Error sending message: '', Fmt (JObj kvs)]"
      "endpoint (op, req) = send_url" by auto
    with text_send_failed(5) n1 show ?thesis
      by (intro exI[of _ c1] exI[of _ "''Error sending message: ''"]) (simp add: aborted_def status_def)
  next
    case (text_sent corp_id corp_secret agent_id proxy token c1 kvs' c3)
    have "(op, req) \<notin> set c1" using get_access_token_bad[OF text_sent(2) _ bad] by auto
    moreover have "(op, req) \<notin> set c3" using send_text_bad[OF text_sent(4) _ bad] by auto
    ultimately show ?thesis using call text_sent(5) by simp
  qed
qed

section \<open>Runs of the sample world\<close>

lemma upload_media_exchange_found:
  "path_exists w p = Inr True \<Longrightarrow> guess_type w p = Inr guessed \<Longrightarrow>
   read_bytes w p = Inr file_data \<Longrightarrow>
   str_encode w (multipart_head (uuid4_hex w) (path_name w p) (content_type_of guessed)) = Inr head \<Longrightarrow>
   str_encode w (multipart_tail (uuid4_hex w)) = Inr tail \<Longrightarrow>
   upload_media w token (Some p) kind op =
     exchange w op (upload_request token kind (uuid4_hex w) (head @ file_data @ tail))
       ''Error uploading media: '' (\<lambda>data. raising (py_index data ''media_id'') Inr)"
  by (simp add: upload_media_def exchange_def upload_request_def multipart_head_def multipart_tail_def
      content_type_of_def Let_def)

lemmas run_defs = main_def parse_args_def aborted_def print_result_def upload_media_def
  send_text_def send_image_def send_file_def

lemma run_token_error:
  "main (sample_world (config_with sample_vars) (vendor (Body vendor_error) upload_ok send_ok)) text_cli
   = aborted [(Direct, token_request (JStr ''ww1'') (JStr ''s3''))]
       (SysExit [Lit ''Error getting token: '', Fmt vendor_error])"
  by (simp add: sample_defs script_defs run_defs token_request_def)

lemma run_upload_error:
  "main (sample_world (config_with sample_vars) (vendor token_ok (Body vendor_error) send_ok)) image_cli
   = aborted [(Direct, token_request (JStr ''ww1'') (JStr ''s3'')),
              (Direct, sample_upload ''image'')]
       (SysExit [Lit ''Error uploading media: '', Fmt vendor_error])"
  by (simp add: sample_defs script_defs run_defs token_request_def upload_request_def)

lemma run_send_error:
  "main (sample_world (config_with sample_vars) (vendor token_ok upload_ok (Body vendor_error))) image_cli
   = aborted [(Direct, token_request (JStr ''ww1'') (JStr ''s3'')),
              (Direct, sample_upload ''image''),
              (Direct, send_request (JStr ''T0'') (message_payload ''image'' 1000002 ''LiXueHeng'' ''media_id'' (JStr ''M0'')))]
       (SysExit [Lit ''Error sending image: '', Fmt vendor_error])"
  by (simp add: sample_defs script_defs run_defs token_request_def upload_request_def send_request_def message_payload_def)


text \<open>C3 at each of the three stages of the sample world.\<close>

lemma vendor_error_nonzero:
  "map_of [(''errcode'', JInt 40013), (''errmsg'', JStr ''invalid corpid'')] ''errcode'' = Some (JInt 40013)"
  "JInt 40013 \<notin> {JInt 0, JBool False, JFloat (Finite 0)}"
  by simp_all

theorem nonzero_errcode_aborts_at_that_stage_witness:
  "(Direct, token_request (JStr ''ww1'') (JStr ''s3''))
     \<in> set (calls (main (sample_world (config_with sample_vars) (vendor (Body vendor_error) upload_ok send_ok)) text_cli))
   \<and> open_url (sample_world (config_with sample_vars) (vendor (Body vendor_error) upload_ok send_ok))
        Direct (token_request (JStr ''ww1'') (JStr ''s3'')) = Body vendor_error
   \<and> ending (main (sample_world (config_with sample_vars) (vendor (Body vendor_error) upload_ok send_ok)) text_cli)
        = Some (SysExit [Lit ''Error getting token: '', Fmt vendor_error])
   \<and> (Direct, sample_upload ''image'')
     \<in> set (calls (main (sample_world (config_with sample_vars) (vendor token_ok (Body vendor_error) send_ok)) image_cli))
   \<and> ending (main (sample_world (config_with sample_vars) (vendor token_ok (Body vendor_error) send_ok)) image_cli)
        = Some (SysExit [Lit ''Error uploading media: '', Fmt vendor_error])
   \<and> (Direct, send_request (JStr ''T0'') (message_payload ''image'' 1000002 ''LiXueHeng'' ''media_id'' (JStr ''M0'')))
     \<in> set (calls (main (sample_world (config_with sample_vars) (vendor token_ok upload_ok (Body vendor_error))) image_cli))
   \<and> ending (main (sample_world (config_with sample_vars) (vendor token_ok upload_ok (Body vendor_error))) image_cli)
        = Some (SysExit [Lit ''Error sending image: '', Fmt vendor_error])"
proof -
  let ?kvs = "[(''errcode'', JInt 40013), (''errmsg'', JStr ''invalid corpid'')]"
  let ?w1 = "sample_world (config_with sample_vars) (vendor (Body vendor_error) upload_ok send_ok)"
  let ?w2 = "sample_world (config_with sample_vars) (vendor token_ok (Body vendor_error) send_ok)"
  let ?w3 = "sample_world (config_with sample_vars) (vendor token_ok upload_ok (Body vendor_error))"
  let ?r1 = "token_request (JStr ''ww1'') (JStr ''s3'')"
  let ?r2 = "sample_upload ''image''"
  let ?r3 = "send_request (JStr ''T0'') (message_payload ''image'' 1000002 ''LiXueHeng'' ''media_id'' (JStr ''M0''))"
  have a1: "(Direct, ?r1) \<in> set (calls (main ?w1 text_cli))" by (simp add: run_token_error aborted_def)
  have b1: "open_url ?w1 Direct ?r1 = Body (JObj ?kvs)"
    by (simp add: sample_defs token_request_def)
  have e1: "endpoint (Direct, ?r1) = token_url" by (simp add: token_request_def token_url_def)
  from nonzero_errcode_aborts_at_that_stage[OF a1 b1 vendor_error_nonzero] e1
  have t1: "ending (main ?w1 text_cli) = Some (SysExit [Lit ''Error getting token: '', Fmt (JObj ?kvs)])"
    by auto
  have a2: "(Direct, ?r2) \<in> set (calls (main ?w2 image_cli))" by (simp add: run_upload_error aborted_def)
  have b2: "open_url ?w2 Direct ?r2 = Body (JObj ?kvs)"
    by (simp add: sample_defs)
  have e2: "endpoint (Direct, ?r2) = upload_url"
    by (simp add: sample_upload_def upload_request_def upload_url_def)
  from nonzero_errcode_aborts_at_that_stage[OF a2 b2 vendor_error_nonzero] e2
  have t2: "ending (main ?w2 image_cli) = Some (SysExit [Lit ''Error uploading media: '', Fmt (JObj ?kvs)])"
    by auto
  have a3: "(Direct, ?r3) \<in> set (calls (main ?w3 image_cli))" by (simp add: run_send_error aborted_def)
  have b3: "open_url ?w3 Direct ?r3 = Body (JObj ?kvs)"
    by (simp add: sample_defs send_request_def)
  have e3: "endpoint (Direct, ?r3) = send_url" by (simp add: send_request_def send_url_def)
  from nonzero_errcode_aborts_at_that_stage[OF a3 b3 vendor_error_nonzero] 
  obtain prefix where "ending (main ?w3 image_cli) = Some (SysExit [Lit prefix, Fmt (JObj ?kvs)])" by blast
  then have t3: "ending (main ?w3 image_cli) = Some (SysExit [Lit ''Error sending image: '', Fmt (JObj ?kvs)])"
    by (simp add: run_send_error aborted_def)
  from a1 b1 t1 a2 t2 a3 t3 show ?thesis by (simp add: vendor_error_def)
qed

section \<open>The payload of a send request\<close>

lemma payload_send_request [simp]: "payload (op, send_request token p) = Some p"
  by (simp add: payload_def send_request_def)

lemma endpoint_send_request [simp]: "endpoint (op, send_request token p) = send_url"
  by (simp add: endpoint_def send_request_def send_url_def)

lemma payload_token_request [simp]: "payload (op, token_request a b) = None"
  by (simp add: payload_def token_request_def)

lemma get_access_token_payload:
  "get_access_token w corp_id corp_secret op = (res, cs) \<Longrightarrow> c \<in> set cs \<Longrightarrow> payload c = None"
  by (auto simp: get_access_token_exchange dest!: exchange_calls)

lemma upload_media_payload:
  "upload_media w token path kind op = (res, cs) \<Longrightarrow> c \<in> set cs \<Longrightarrow> payload c = None"
  by (auto simp: upload_media_def Let_def payload_def split: option.splits if_splits sum.splits)

lemma upload_media_Inr:
  assumes "upload_media w token path kind op = (Inr media_id, cs)"
  shows "\<exists>req kvs. cs = [(op, req)] \<and> endpoint (op, req) = upload_url
           \<and> open_url w op req = Body (JObj kvs) \<and> py_index (JObj kvs) ''media_id'' = Inr media_id
           \<and> (\<forall>e. map_of kvs ''errcode'' = Some e \<longrightarrow> \<not> ne_zero e)"
proof -
  from assms obtain p where p: "path = Some p" by (cases path) (auto simp: upload_media_def)
  from assms p have ne: "cs \<noteq> []"
    by (auto simp: upload_media_def Let_def split: if_splits sum.splits)
  from upload_media_exchange[OF assms[unfolded p] ne] obtain req where
    req: "endpoint (op, req) = upload_url"
    "exchange w op req ''Error uploading media: '' (\<lambda>data. raising (py_index data ''media_id'') Inr) = (Inr media_id, cs)"
    by auto
  from exchange_Inr[OF req(2)] obtain kvs where
    k: "open_url w op req = Body (JObj kvs)" "raising (py_index (JObj kvs) ''media_id'') Inr = Inr media_id"
       "\<forall>e. map_of kvs ''errcode'' = Some e \<longrightarrow> \<not> ne_zero e"
    by blast
  from k(2) have "py_index (JObj kvs) ''media_id'' = Inr media_id"
    by (auto simp: raising_def split: sum.splits option.splits)
  with exchange_calls[OF req(2)] req(1) k(1,3) show ?thesis by blast
qed

lemma attachment_kind: "attachment c = Some (kind, path) \<Longrightarrow> kind = ''image'' \<or> kind = ''file''"
  by (auto simp: attachment_def split: if_splits)

lemma send_media_request:
  "kind = ''image'' \<or> kind = ''file'' \<Longrightarrow>
   send_media kind w token agent_id to_user media_id op = (res, cs) \<Longrightarrow>
   cs = [(op, send_request token (message_payload kind agent_id to_user ''media_id'' media_id))]"
  by (auto simp: send_media_def send_image_exchange send_file_exchange dest!: exchange_calls)

lemma send_text_request:
  "send_text w token agent_id to_user text op = (res, cs) \<Longrightarrow>
   cs = [(op, send_request token (message_payload ''text'' agent_id to_user ''content'' text))]"
  by (auto simp: send_text_exchange dest!: exchange_calls)

lemma message_payload_fields:
  "py_index (message_payload mt agent_id to_user key v) ''msgtype'' = Inr (JStr mt)"
  "py_index (message_payload mt agent_id to_user key v) ''touser'' = Inr (JStr to_user)"
  "py_index (message_payload mt agent_id to_user key v) ''agentid'' = Inr (JInt agent_id)"
  "mt \<in> {''text'', ''image'', ''file''} \<Longrightarrow> nested (message_payload mt agent_id to_user key v) mt key = Inr v"
  "mt \<in> {''text'', ''image'', ''file''} \<Longrightarrow> py_index (message_payload mt agent_id to_user key v) ''safe'' = Inr (JInt 0)"
  by (auto simp: message_payload_def nested_def)


lemma main_payload:
  assumes c: "c \<in> set (calls (main w cl))" and p: "payload c = Some p"
  shows "endpoint c = send_url \<and>
      (case attachment cl of
         None \<Rightarrow> py_index p ''msgtype'' = Inr (JStr ''text'')
                  \<and> (\<exists>m. cli_message cl = Some m \<and> nested p ''text'' ''content'' = Inr (JStr m))
       | Some (kind, path) \<Rightarrow> py_index p ''msgtype'' = Inr (JStr kind) \<and>
           (\<exists>up kvs media_id. up \<in> set (calls (main w cl)) \<and> endpoint up = upload_url
              \<and> open_url w (fst up) (snd up) = Body (JObj kvs)
              \<and> py_index (JObj kvs) ''media_id'' = Inr media_id
              \<and> nested p kind ''media_id'' = Inr media_id))"
proof -
  have text_case: ?thesis
    if tok: "get_access_token w corp_id corp_secret op = (Inr token, c1)"
      and att: "attachment cl = None"
      and snd: "send_text w token agent_id (args_to (parse_args cl)) (arg_value (cli_message cl)) op = (res, c3)"
      and calls: "calls (main w cl) = c1 @ c3"
    for corp_id corp_secret op token c1 agent_id res c3
  proof -
    from att have na: "\<not> given (cli_image cl)" "\<not> given (cli_file cl)"
      by (auto simp: attachment_def split: if_splits)
    have "given (cli_message cl)"
    proof (rule ccontr)
      assume "\<not> given (cli_message cl)"
      from main_no_input[OF this na] c show False by (simp add: aborted_def)
    qed
    then obtain m where m: "cli_message cl = Some m" by (cases "cli_message cl") auto
    have "c \<notin> set c1" using get_access_token_payload[OF tok, of c] p by auto
    with c calls have "c \<in> set c3" by simp
    with send_text_request[OF snd]
    have "c = (op, send_request token (message_payload ''text'' agent_id (args_to (parse_args cl)) ''content'' (JStr m)))"
      by (simp add: m)
    with p att m show ?thesis
      by (auto simp: message_payload_fields)
  qed
  have media_case: ?thesis
    if tok: "get_access_token w corp_id corp_secret op = (Inr token, c1)"
      and att: "attachment cl = Some (kind, path)"
      and up: "upload_media w token path kind op = (Inr media_id, c2)"
      and snd: "send_media kind w token agent_id (args_to (parse_args cl)) media_id op = (res, c3)"
      and calls: "calls (main w cl) = c1 @ c2 @ c3"
    for corp_id corp_secret op token c1 kind path media_id c2 agent_id res c3
  proof -
    note k = attachment_kind[OF att]
    have "c \<notin> set c1" using get_access_token_payload[OF tok, of c] p by auto
    moreover have "c \<notin> set c2" using upload_media_payload[OF up, of c] p by auto
    ultimately have "c \<in> set c3" using c calls by simp
    with send_media_request[OF k snd]
    have ceq: "c = (op, send_request token (message_payload kind agent_id (args_to (parse_args cl)) ''media_id'' media_id))"
      by simp
    with p have peq: "p = message_payload kind agent_id (args_to (parse_args cl)) ''media_id'' media_id" by simp
    from upload_media_Inr[OF up] obtain req kvs where
      u: "c2 = [(op, req)]" "endpoint (op, req) = upload_url" "open_url w op req = Body (JObj kvs)"
         "py_index (JObj kvs) ''media_id'' = Inr media_id" by blast
    have "(op, req) \<in> set (calls (main w cl))" using calls u(1) by simp
    moreover have "nested p kind ''media_id'' = Inr media_id" "py_index p ''msgtype'' = Inr (JStr kind)"
      using k peq by (auto simp: message_payload_fields)
    moreover have "endpoint c = send_url" using ceq by simp
    ultimately show ?thesis using att u(2,3,4) by (simp del: py_index.simps) (metis fst_conv snd_conv)
  qed
  show ?thesis
  proof (cases rule: main_cases[of cl w])
    case no_input
    with c show ?thesis by (simp add: aborted_def)
  next
    case (config_failed f)
    with c show ?thesis by (simp add: aborted_def)
  next
    case (token_failed corp_id corp_secret agent_id proxy f c1)
    with c get_access_token_payload[OF token_failed(2), of c] p show ?thesis by (simp add: aborted_def)
  next
    case (upload_failed corp_id corp_secret agent_id proxy token c1 kind path f c2)
    with c get_access_token_payload[OF upload_failed(2), of c] upload_media_payload[OF upload_failed(4), of c] p
    show ?thesis by (auto simp: aborted_def)
  next
    case (media_send_failed corp_id corp_secret agent_id proxy token c1 kind path media_id c2 f c3)
    show ?thesis
      by (rule media_case[OF media_send_failed(2,3,4,5)]) (simp add: media_send_failed(6) aborted_def)
  next
    case (media_sent corp_id corp_secret agent_id proxy token c1 kind path media_id c2 kvs c3)
    show ?thesis
      by (rule media_case[OF media_sent(2,3,4,5)]) (simp add: media_sent(6))
  next
    case (text_send_failed corp_id corp_secret agent_id proxy token c1 f c3)
    show ?thesis
      by (rule text_case[OF text_send_failed(2,3,4)]) (simp add: text_send_failed(5) aborted_def)
  next
    case (text_sent corp_id corp_secret agent_id proxy token c1 kvs c3)
    show ?thesis
      by (rule text_case[OF text_sent(2,3,4)]) (simp add: text_sent(5))
  qed
qed

text \<open>
  C4. The one request \<open>send_text\<close> issues carries a JSON payload whose \<open>msgtype\<close> is
  \<open>"text"\<close> and whose \<open>text.content\<close> is the text it was given; the payloads of
  \<open>send_image\<close> and \<open>send_file\<close> have \<open>msgtype\<close> \<open>"image"\<close> and \<open>"file"\<close> and carry
  the given media id under \<open>image.media_id\<close> and \<open>file.media_id\<close>. In a run of \<open>main\<close>,
  every request with a JSON payload is a send request; for a text message its
  \<open>text.content\<close> is the message string of the command line, and for an attachment its
  \<open>media_id\<close> is the value of \<open>media_id\<close> in the answer to the upload request of the
  same run. (The payload is the value handed to \<open>json.dumps\<close>; reading it back is the
  library's inverse of that call.)
\<close>

theorem payload_carries_message_and_media_id:
  "(\<exists>p. map payload (snd (send_text w token agent_id to_user text op)) = [Some p]
        \<and> py_index p ''msgtype'' = Inr (JStr ''text'') \<and> nested p ''text'' ''content'' = Inr text)
   \<and> (\<exists>p. map payload (snd (send_image w token agent_id to_user media_id op)) = [Some p]
        \<and> py_index p ''msgtype'' = Inr (JStr ''image'') \<and> nested p ''image'' ''media_id'' = Inr media_id)
   \<and> (\<exists>p. map payload (snd (send_file w token agent_id to_user media_id op)) = [Some p]
        \<and> py_index p ''msgtype'' = Inr (JStr ''file'') \<and> nested p ''file'' ''media_id'' = Inr media_id)
   \<and> (\<forall>c p. c \<in> set (calls (main w cl)) \<longrightarrow> payload c = Some p \<longrightarrow>
        endpoint c = send_url \<and>
        (case attachment cl of
           None \<Rightarrow> py_index p ''msgtype'' = Inr (JStr ''text'')
                    \<and> (\<exists>m. cli_message cl = Some m \<and> nested p ''text'' ''content'' = Inr (JStr m))
         | Some (kind, path) \<Rightarrow> py_index p ''msgtype'' = Inr (JStr kind) \<and>
             (\<exists>up kvs media_id. up \<in> set (calls (main w cl)) \<and> endpoint up = upload_url
                \<and> open_url w (fst up) (snd up) = Body (JObj kvs)
                \<and> py_index (JObj kvs) ''media_id'' = Inr media_id
                \<and> nested p kind ''media_id'' = Inr media_id)))"
proof (intro conjI allI impI)
  show "\<exists>p. map payload (snd (send_text w token agent_id to_user text op)) = [Some p]
        \<and> py_index p ''msgtype'' = Inr (JStr ''text'') \<and> nested p ''text'' ''content'' = Inr text"
    by (rule exI[of _ "message_payload ''text'' agent_id to_user ''content'' text"])
       (simp add: send_text_exchange exchange_def message_payload_fields)
  show "\<exists>p. map payload (snd (send_image w token agent_id to_user media_id op)) = [Some p]
        \<and> py_index p ''msgtype'' = Inr (JStr ''image'') \<and> nested p ''image'' ''media_id'' = Inr media_id"
    by (rule exI[of _ "message_payload ''image'' agent_id to_user ''media_id'' media_id"])
       (simp add: send_image_exchange exchange_def message_payload_fields)
  show "\<exists>p. map payload (snd (send_file w token agent_id to_user media_id op)) = [Some p]
        \<and> py_index p ''msgtype'' = Inr (JStr ''file'') \<and> nested p ''file'' ''media_id'' = Inr media_id"
    by (rule exI[of _ "message_payload ''file'' agent_id to_user ''media_id'' media_id"])
       (simp add: send_file_exchange exchange_def message_payload_fields)
next
  fix c p assume "c \<in> set (calls (main w cl))" "payload c = Some p"
  from main_payload[OF this] show "endpoint c = send_url" by simp
  from main_payload[OF \<open>c \<in> set (calls (main w cl))\<close> \<open>payload c = Some p\<close>]
  show "case attachment cl of
           None \<Rightarrow> py_index p ''msgtype'' = Inr (JStr ''text'')
                    \<and> (\<exists>m. cli_message cl = Some m \<and> nested p ''text'' ''content'' = Inr (JStr m))
         | Some (kind, path) \<Rightarrow> py_index p ''msgtype'' = Inr (JStr kind) \<and>
             (\<exists>up kvs media_id. up \<in> set (calls (main w cl)) \<and> endpoint up = upload_url
                \<and> open_url w (fst up) (snd up) = Body (JObj kvs)
                \<and> py_index (JObj kvs) ''media_id'' = Inr media_id
                \<and> nested p kind ''media_id'' = Inr media_id)" by simp
qed

lemma run_image_ok:
  "main (sample_world (config_with sample_vars) (vendor token_ok upload_ok send_ok)) image_cli
   = \<lparr>calls = [(Direct, token_request (JStr ''ww1'') (JStr ''s3'')),
               (Direct, sample_upload ''image''),
               (Direct, send_request (JStr ''T0'') (message_payload ''image'' 1000002 ''LiXueHeng'' ''media_id'' (JStr ''M0'')))],
      stdout = [JObj [(''ok'', JBool True), (''type'', JStr ''image''), (''to'', JStr ''LiXueHeng''),
                      (''media_id'', JStr ''M0''), (''msgid'', JStr ''id0'')]],
      ending = None\<rparr>"
  by (simp add: sample_defs script_defs run_defs token_request_def upload_request_def send_request_def message_payload_def)

lemma run_text_ok:
  "main (sample_world (config_with sample_vars) (vendor token_ok upload_ok send_ok)) text_cli
   = \<lparr>calls = [(Direct, token_request (JStr ''ww1'') (JStr ''s3'')),
               (Direct, send_request (JStr ''T0'') (message_payload ''text'' 1000002 ''LiXueHeng'' ''content'' (JStr ''hi'')))],
      stdout = [JObj [(''ok'', JBool True), (''type'', JStr ''text''), (''to'', JStr ''LiXueHeng''),
                      (''msgid'', JStr ''id0'')]],
      ending = None\<rparr>"
  by (simp add: sample_defs script_defs run_defs token_request_def send_request_def message_payload_def)

theorem payload_carries_message_and_media_id_witness:
  "(Direct, send_request (JStr ''T0'') (message_payload ''image'' 1000002 ''LiXueHeng'' ''media_id'' (JStr ''M0'')))
     \<in> set (calls (main (sample_world (config_with sample_vars) (vendor token_ok upload_ok send_ok)) image_cli))
   \<and> payload (Direct, send_request (JStr ''T0'') (message_payload ''image'' 1000002 ''LiXueHeng'' ''media_id'' (JStr ''M0'')))
       = Some (message_payload ''image'' 1000002 ''LiXueHeng'' ''media_id'' (JStr ''M0''))
   \<and> attachment image_cli = Some (''image'', Some ''a.png'')
   \<and> py_index (message_payload ''image'' 1000002 ''LiXueHeng'' ''media_id'' (JStr ''M0'')) ''msgtype'' = Inr (JStr ''image'')
   \<and> (\<exists>up kvs media_id.
         up \<in> set (calls (main (sample_world (config_with sample_vars) (vendor token_ok upload_ok send_ok)) image_cli))
         \<and> endpoint up = upload_url
         \<and> open_url (sample_world (config_with sample_vars) (vendor token_ok upload_ok send_ok)) (fst up) (snd up) = Body (JObj kvs)
         \<and> py_index (JObj kvs) ''media_id'' = Inr media_id
         \<and> nested (message_payload ''image'' 1000002 ''LiXueHeng'' ''media_id'' (JStr ''M0'')) ''image'' ''media_id'' = Inr media_id)
   \<and> (Direct, send_request (JStr ''T0'') (message_payload ''text'' 1000002 ''LiXueHeng'' ''content'' (JStr ''hi'')))
     \<in> set (calls (main (sample_world (config_with sample_vars) (vendor token_ok upload_ok send_ok)) text_cli))
   \<and> attachment text_cli = None
   \<and> nested (message_payload ''text'' 1000002 ''LiXueHeng'' ''content'' (JStr ''hi'')) ''text'' ''content'' = Inr (JStr ''hi'')"
proof -
  let ?w = "sample_world (config_with sample_vars) (vendor token_ok upload_ok send_ok)"
  let ?p = "message_payload ''image'' 1000002 ''LiXueHeng'' ''media_id'' (JStr ''M0'')"
  let ?q = "message_payload ''text'' 1000002 ''LiXueHeng'' ''content'' (JStr ''hi'')"
  have a: "(Direct, send_request (JStr ''T0'') ?p) \<in> set (calls (main ?w image_cli))"
    by (simp add: run_image_ok)
  have b: "payload (Direct, send_request (JStr ''T0'') ?p) = Some ?p" by simp
  have att: "attachment image_cli = Some (''image'', Some ''a.png'')"
    by (simp add: attachment_def image_cli_def)
  have a': "(Direct, send_request (JStr ''T0'') ?q) \<in> set (calls (main ?w text_cli))"
    by (simp add: run_text_ok)
  have b': "payload (Direct, send_request (JStr ''T0'') ?q) = Some ?q" by simp
  have att': "attachment text_cli = None" "cli_message text_cli = Some ''hi''"
    by (simp_all add: attachment_def text_cli_def)
  from payload_carries_message_and_media_id[of ?w _ _ _ _ _ _ image_cli] a b att
  have i: "py_index ?p ''msgtype'' = Inr (JStr ''image'') \<and>
     (\<exists>up kvs media_id. up \<in> set (calls (main ?w image_cli)) \<and> endpoint up = upload_url
        \<and> open_url ?w (fst up) (snd up) = Body (JObj kvs)
        \<and> py_index (JObj kvs) ''media_id'' = Inr media_id
        \<and> nested ?p ''image'' ''media_id'' = Inr media_id)"
    by (auto simp del: py_index.simps)
  from payload_carries_message_and_media_id[of ?w _ _ _ _ _ _ text_cli] a' b' att'
  have t: "nested ?q ''text'' ''content'' = Inr (JStr ''hi'')"
    by (auto simp del: py_index.simps)
  from a b att i a' att'(1) t show ?thesis by blast
qed

section \<open>The result line\<close>

lemma exchange_sent:
  assumes "exchange w op req prefix Inr = (Inr (JObj kvs), cs)"
  shows "cs = [(op, req)] \<and> open_url w op req = Body (JObj kvs)
       \<and> (\<forall>e. map_of kvs ''errcode'' = Some e \<longrightarrow> \<not> ne_zero e)"
  using exchange_Inr[OF assms] exchange_calls[OF assms] by auto

lemma send_text_sent:
  assumes "send_text w token agent_id to_user text op = (Inr (JObj kvs), cs)"
  shows "\<exists>req. cs = [(op, req)] \<and> endpoint (op, req) = send_url \<and> open_url w op req = Body (JObj kvs)"
  using exchange_sent[OF assms[unfolded send_text_exchange]] by auto

lemma send_media_sent:
  assumes "send_media kind w token agent_id to_user media_id op = (Inr (JObj kvs), cs)"
  shows "\<exists>req. cs = [(op, req)] \<and> endpoint (op, req) = send_url \<and> open_url w op req = Body (JObj kvs)"
proof (cases "kind = ''image''")
  case True
  with assms have "exchange w op (send_request token (message_payload ''image'' agent_id to_user ''media_id'' media_id))
       ''Error sending image: '' Inr = (Inr (JObj kvs), cs)"
    by (simp add: send_media_def send_image_exchange)
  from exchange_sent[OF this] show ?thesis by auto
next
  case False
  with assms have "exchange w op (send_request token (message_payload ''file'' agent_id to_user ''media_id'' media_id))
       ''Error sending file: '' Inr = (Inr (JObj kvs), cs)"
    by (simp add: send_media_def send_file_exchange)
  from exchange_sent[OF this] show ?thesis by auto
qed

text \<open>
  C5, as the script has it. The vendor answers the upload with the number 42 as
  \<open>media_id\<close> and the send with \<open>null\<close> as \<open>msgid\<close>: the run returns with status 0
  and prints both as they came, neither of them a string.
\<close>

theorem number_and_null_are_printed:
  "ending (main (sample_world (config_with sample_vars) (vendor token_ok upload_number send_null)) image_cli) = None
   \<and> status (main (sample_world (config_with sample_vars) (vendor token_ok upload_number send_null)) image_cli) = 0
   \<and> stdout (main (sample_world (config_with sample_vars) (vendor token_ok upload_number send_null)) image_cli)
       = [JObj [(''ok'', JBool True), (''type'', JStr ''image''), (''to'', JStr ''LiXueHeng''),
                (''media_id'', JInt 42), (''msgid'', JNull)]]
   \<and> \<not> is_str (JInt 42) \<and> \<not> is_str JNull"
  by (simp add: sample_defs script_defs run_defs status_def)

text \<open>
  C5, amended. A run in which \<open>main\<close> returns has exit status 0 and has printed
  exactly one line, a JSON object with the keys \<open>ok\<close>, \<open>type\<close>, \<open>to\<close>, \<open>media_id\<close>,
  \<open>msgid\<close> in this order, where \<open>ok\<close> is \<open>true\<close>, \<open>type\<close> is \<open>"text"\<close>, \<open>"image"\<close>
  or \<open>"file"\<close>, \<open>to\<close> is the recipient, and the key \<open>media_id\<close> is there for an image
  or a file and left out for a text message. The values of \<open>media_id\<close> and \<open>msgid\<close>
  are passed through as the vendor sent them, whatever their JSON type: \<open>media_id\<close> is
  the \<open>media_id\<close> of the answer to the upload request, \<open>msgid\<close> the \<open>msgid\<close> of the
  answer to the send request, the last request of the run, or the empty string when that
  answer has none.
\<close>

theorem success_prints_one_result_line:
  assumes ok: "ending (main w c) = None"
  shows "status (main w c) = 0 \<and>
    (\<exists>sent kvs. calls (main w c) \<noteq> [] \<and> last (calls (main w c)) = sent \<and> endpoint sent = send_url
       \<and> open_url w (fst sent) (snd sent) = Body (JObj kvs) \<and>
       (case attachment c of
          None \<Rightarrow>
            stdout (main w c) =
              [JObj [(''ok'', JBool True), (''type'', JStr ''text''), (''to'', JStr (args_to (parse_args c))),
                     (''msgid'', case map_of kvs ''msgid'' of None \<Rightarrow> JStr [] | Some v \<Rightarrow> v)]]
        | Some (kind, path) \<Rightarrow>
            (kind = ''image'' \<or> kind = ''file'') \<and>
            (\<exists>up kvs' media_id. up \<in> set (calls (main w c)) \<and> endpoint up = upload_url
               \<and> open_url w (fst up) (snd up) = Body (JObj kvs') \<and> map_of kvs' ''media_id'' = Some media_id
               \<and> stdout (main w c) =
                   [JObj [(''ok'', JBool True), (''type'', JStr kind), (''to'', JStr (args_to (parse_args c))),
                          (''media_id'', media_id),
                          (''msgid'', case map_of kvs ''msgid'' of None \<Rightarrow> JStr [] | Some v \<Rightarrow> v)]])))"
proof (cases rule: main_cases[of c w])
  case (media_sent corp_id corp_secret agent_id proxy token c1 kind path media_id c2 kvs c3)
  note sent = print_result_returns[OF ok[unfolded media_sent(6)], folded media_sent(6)]
  from send_media_sent[OF media_sent(5)] obtain req where
    s: "c3 = [(opener_of proxy, req)]" "endpoint (opener_of proxy, req) = send_url"
       "open_url w (opener_of proxy) req = Body (JObj kvs)" by blast
  from upload_media_Inr[OF media_sent(4)] obtain ureq kvs' where
    u: "c2 = [(opener_of proxy, ureq)]" "endpoint (opener_of proxy, ureq) = upload_url"
       "open_url w (opener_of proxy) ureq = Body (JObj kvs')" "py_index (JObj kvs') ''media_id'' = Inr media_id"
    by blast
  from u(4) have m: "map_of kvs' ''media_id'' = Some media_id" by (auto split: option.splits)
  have st: "status (main w c) = 0" using ok by (simp add: status_def)
  have "(opener_of proxy, ureq) \<in> set (calls (main w c))" using sent u(1) by simp
  with u(2,3) m have "\<exists>up kvs' media_id'. up \<in> set (calls (main w c)) \<and> endpoint up = upload_url
               \<and> open_url w (fst up) (snd up) = Body (JObj kvs') \<and> map_of kvs' ''media_id'' = Some media_id'
               \<and> stdout (main w c) =
                   [JObj [(''ok'', JBool True), (''type'', JStr kind), (''to'', JStr (args_to (parse_args c))),
                          (''media_id'', media_id'),
                          (''msgid'', case map_of kvs ''msgid'' of None \<Rightarrow> JStr [] | Some v \<Rightarrow> v)]]"
    using sent by (intro exI[of _ "(opener_of proxy, ureq)"] exI[of _ kvs'] exI[of _ media_id]) simp
  with st s attachment_kind[OF media_sent(3)] media_sent(3) sent show ?thesis
    by (intro conjI exI[of _ "(opener_of proxy, req)"] exI[of _ kvs]) simp_all
next
  case (text_sent corp_id corp_secret agent_id proxy token c1 kvs c3)
  note sent = print_result_returns[OF ok[unfolded text_sent(5)], folded text_sent(5)]
  from send_text_sent[OF text_sent(4)] obtain req where
    s: "c3 = [(opener_of proxy, req)]" "endpoint (opener_of proxy, req) = send_url"
       "open_url w (opener_of proxy) req = Body (JObj kvs)" by blast
  have st: "status (main w c) = 0" using ok by (simp add: status_def)
  with s text_sent(3) sent show ?thesis
    by (intro conjI exI[of _ "(opener_of proxy, req)"] exI[of _ kvs]) simp_all
qed (use ok in \<open>simp_all add: aborted_def\<close>)

theorem success_prints_one_result_line_witness:
  "ending (main (sample_world (config_with sample_vars) (vendor token_ok upload_ok send_ok)) image_cli) = None
   \<and> status (main (sample_world (config_with sample_vars) (vendor token_ok upload_ok send_ok)) image_cli) = 0
   \<and> stdout (main (sample_world (config_with sample_vars) (vendor token_ok upload_ok send_ok)) image_cli)
       = [JObj [(''ok'', JBool True), (''type'', JStr ''image''), (''to'', JStr ''LiXueHeng''),
                (''media_id'', JStr ''M0''), (''msgid'', JStr ''id0'')]]
   \<and> ending (main (sample_world (config_with sample_vars) (vendor token_ok upload_ok send_ok)) text_cli) = None
   \<and> status (main (sample_world (config_with sample_vars) (vendor token_ok upload_ok send_ok)) text_cli) = 0
   \<and> stdout (main (sample_world (config_with sample_vars) (vendor token_ok upload_ok send_ok)) text_cli)
       = [JObj [(''ok'', JBool True), (''type'', JStr ''text''), (''to'', JStr ''LiXueHeng''),
                (''msgid'', JStr ''id0'')]]"
proof -
  let ?w = "sample_world (config_with sample_vars) (vendor token_ok upload_ok send_ok)"
  have i: "ending (main ?w image_cli) = None" by (simp add: run_image_ok)
  have t: "ending (main ?w text_cli) = None" by (simp add: run_text_ok)
  from success_prints_one_result_line[OF i] have si: "status (main ?w image_cli) = 0" by blast
  from success_prints_one_result_line[OF t] have st: "status (main ?w text_cli) = 0" by blast
  from i t si st show ?thesis by (simp add: run_image_ok run_text_ok)
qed




section \<open>Which message is sent\<close>

lemma main_image_only:
  "given (cli_image c) \<Longrightarrow> main w c = main w (c\<lparr>cli_message := None, cli_file := None\<rparr>)"
  by (simp add: main_def parse_args_def Let_def cong: sum.case_cong prod.case_cong)

lemma main_file_only:
  "\<not> given (cli_image c) \<Longrightarrow> given (cli_file c) \<Longrightarrow>
   main w c = main w (c\<lparr>cli_message := None, cli_image := None\<rparr>)"
  by (simp add: main_def parse_args_def Let_def cong: sum.case_cong prod.case_cong)

lemma main_text_only:
  "\<not> given (cli_image c) \<Longrightarrow> \<not> given (cli_file c) \<Longrightarrow>
   main w c = main w (c\<lparr>cli_image := None, cli_file := None\<rparr>)"
  by (simp add: main_def parse_args_def Let_def cong: sum.case_cong prod.case_cong)

lemma main_calls:
  "calls (main w c) =
     (if \<not> given (cli_message c) \<and> \<not> given (cli_image c) \<and> \<not> given (cli_file c) then []
      else case load_config w of
        Inl f \<Rightarrow> []
      | Inr (corp_id, corp_secret, agent_id, proxy) \<Rightarrow>
          (case get_access_token w corp_id corp_secret (opener_of proxy) of
             (Inl f, c1) \<Rightarrow> c1
           | (Inr token, c1) \<Rightarrow>
               c1 @ (case attachment c of
                       None \<Rightarrow> snd (send_text w token agent_id (args_to (parse_args c))
                                        (arg_value (cli_message c)) (opener_of proxy))
                     | Some (kind, path) \<Rightarrow>
                         (case upload_media w token path kind (opener_of proxy) of
                            (Inl f, c2) \<Rightarrow> c2
                          | (Inr media_id, c2) \<Rightarrow>
                              c2 @ snd (send_media kind w token agent_id (args_to (parse_args c))
                                          media_id (opener_of proxy))))))"
  by (cases rule: main_cases[of c w]) (auto simp: aborted_def)


lemma main_endpoints:
  "map endpoint (calls (main w c)) \<in>
     {[], [token_url], [token_url, upload_url], [token_url, send_url], [token_url, upload_url, send_url]}"
proof (cases rule: main_cases[of c w])
  case (token_failed corp_id corp_secret agent_id proxy f c1)
  with get_access_token_calls[OF token_failed(2)] show ?thesis by (simp add: aborted_def)
next
  case (upload_failed corp_id corp_secret agent_id proxy token c1 kind path f c2)
  with get_access_token_calls[OF upload_failed(2)] upload_media_calls[OF upload_failed(4)]
  show ?thesis by (auto simp: aborted_def)
next
  case (media_send_failed corp_id corp_secret agent_id proxy token c1 kind path media_id c2 f c3)
  with get_access_token_calls[OF media_send_failed(2)] upload_media_calls[OF media_send_failed(4)]
    send_media_calls[OF media_send_failed(5)]
  show ?thesis by (auto simp: aborted_def)
next
  case (media_sent corp_id corp_secret agent_id proxy token c1 kind path media_id c2 kvs c3)
  with get_access_token_calls[OF media_sent(2)] upload_media_calls[OF media_sent(4)]
    send_media_calls[OF media_sent(5)]
  show ?thesis by auto
next
  case (text_send_failed corp_id corp_secret agent_id proxy token c1 f c3)
  with get_access_token_calls[OF text_send_failed(2)] send_text_calls[OF text_send_failed(4)]
  show ?thesis by (simp add: aborted_def)
next
  case (text_sent corp_id corp_secret agent_id proxy token c1 kvs c3)
  with get_access_token_calls[OF text_sent(2)] send_text_calls[OF text_sent(4)]
  show ?thesis by simp
qed (simp_all add: aborted_def)

lemma count_endpoint:
  "length (filter (\<lambda>x. endpoint x = u) cs) = length (filter (\<lambda>e. e = u) (map endpoint cs))"
  by (induction cs) auto

lemma main_one_send: "length (filter (\<lambda>x. endpoint x = send_url) (calls (main w c))) \<le> 1"
proof -
  have "length (filter (\<lambda>e. e = send_url) es) \<le> 1"
    if "es \<in> {[], [token_url], [token_url, upload_url], [token_url, send_url], [token_url, upload_url, send_url]}"
    for es
    using that by auto
  from this[OF main_endpoints[of w c]] show ?thesis
    by (simp only: count_endpoint)
qed

text \<open>
  C6. An argument counts as supplied when it is present and not the empty string, which
  is what \<open>main\<close> tests. With \<open>--image\<close> supplied the whole run (requests, output and
  ending) is that of the invocation with \<open>--image\<close> alone, whatever message and
  \<open>--file\<close> came with it; with no \<open>--image\<close> but \<open>--file\<close> supplied it is that of the
  invocation with \<open>--file\<close> alone; with neither it is that of the invocation with the
  message alone. A run issues at most one send request, and the \<open>msgtype\<close> of its
  payload is \<open>"image"\<close>, else \<open>"file"\<close>, else \<open>"text"\<close>, in this order of precedence.
\<close>

theorem precedence_image_file_text:
  "(given (cli_image c) \<longrightarrow> main w c = main w (c\<lparr>cli_message := None, cli_file := None\<rparr>))
   \<and> (\<not> given (cli_image c) \<and> given (cli_file c) \<longrightarrow>
        main w c = main w (c\<lparr>cli_message := None, cli_image := None\<rparr>))
   \<and> (\<not> given (cli_image c) \<and> \<not> given (cli_file c) \<longrightarrow>
        main w c = main w (c\<lparr>cli_image := None, cli_file := None\<rparr>))
   \<and> length (filter (\<lambda>x. endpoint x = send_url) (calls (main w c))) \<le> 1
   \<and> (\<forall>x p. x \<in> set (calls (main w c)) \<longrightarrow> payload x = Some p \<longrightarrow>
        py_index p ''msgtype'' =
          Inr (JStr (if given (cli_image c) then ''image'' else if given (cli_file c) then ''file'' else ''text'')))"
proof (intro conjI allI impI)
  fix x p assume "x \<in> set (calls (main w c))" "payload x = Some p"
  from main_payload[OF this]
  show "py_index p ''msgtype'' =
          Inr (JStr (if given (cli_image c) then ''image'' else if given (cli_file c) then ''file'' else ''text''))"
    by (auto simp: attachment_def simp del: py_index.simps split: if_splits)
next
  assume "given (cli_image c)"
  then show "main w c = main w (c\<lparr>cli_message := None, cli_file := None\<rparr>)" by (rule main_image_only)
next
  assume "\<not> given (cli_image c) \<and> given (cli_file c)"
  then show "main w c = main w (c\<lparr>cli_message := None, cli_image := None\<rparr>)"
    using main_file_only by blast
next
  assume "\<not> given (cli_image c) \<and> \<not> given (cli_file c)"
  then show "main w c = main w (c\<lparr>cli_image := None, cli_file := None\<rparr>)"
    using main_text_only by blast
next
  show "length (filter (\<lambda>x. endpoint x = send_url) (calls (main w c))) \<le> 1" by (rule main_one_send)
qed

lemma run_file_ok:
  "main (sample_world (config_with sample_vars) (vendor token_ok upload_ok send_ok))
        \<lparr>cli_message = None, cli_to = None, cli_image = None, cli_file = Some ''a.png''\<rparr>
   = \<lparr>calls = [(Direct, token_request (JStr ''ww1'') (JStr ''s3'')),
               (Direct, sample_upload ''file''),
               (Direct, send_request (JStr ''T0'') (message_payload ''file'' 1000002 ''LiXueHeng'' ''media_id'' (JStr ''M0'')))],
      stdout = [JObj [(''ok'', JBool True), (''type'', JStr ''file''), (''to'', JStr ''LiXueHeng''),
                      (''media_id'', JStr ''M0''), (''msgid'', JStr ''id0'')]],
      ending = None\<rparr>"
  by (simp add: sample_defs script_defs run_defs token_request_def upload_request_def send_request_def message_payload_def)

theorem precedence_image_file_text_witness:
  "given (cli_image every_cli)
   \<and> stdout (main (sample_world (config_with sample_vars) (vendor token_ok upload_ok send_ok)) every_cli)
       = [JObj [(''ok'', JBool True), (''type'', JStr ''image''), (''to'', JStr ''LiXueHeng''),
                (''media_id'', JStr ''M0''), (''msgid'', JStr ''id0'')]]
   \<and> \<not> given (cli_image (every_cli\<lparr>cli_image := None\<rparr>)) \<and> given (cli_file (every_cli\<lparr>cli_image := None\<rparr>))
   \<and> stdout (main (sample_world (config_with sample_vars) (vendor token_ok upload_ok send_ok))
                (every_cli\<lparr>cli_image := None\<rparr>))
       = [JObj [(''ok'', JBool True), (''type'', JStr ''file''), (''to'', JStr ''LiXueHeng''),
                (''media_id'', JStr ''M0''), (''msgid'', JStr ''id0'')]]
   \<and> \<not> given (cli_image (every_cli\<lparr>cli_image := None, cli_file := Some []\<rparr>))
   \<and> \<not> given (cli_file (every_cli\<lparr>cli_image := None, cli_file := Some []\<rparr>))
   \<and> stdout (main (sample_world (config_with sample_vars) (vendor token_ok upload_ok send_ok))
                (every_cli\<lparr>cli_image := None, cli_file := Some []\<rparr>))
       = [JObj [(''ok'', JBool True), (''type'', JStr ''text''), (''to'', JStr ''LiXueHeng''),
                (''msgid'', JStr ''id0'')]]"
proof -
  let ?w = "sample_world (config_with sample_vars) (vendor token_ok upload_ok send_ok)"
  let ?f = "every_cli\<lparr>cli_image := None\<rparr>"
  let ?t = "every_cli\<lparr>cli_image := None, cli_file := Some []\<rparr>"
  have g1: "given (cli_image every_cli)" by (simp add: every_cli_def)
  have g2: "\<not> given (cli_image ?f) \<and> given (cli_file ?f)" by (simp add: every_cli_def)
  have g3: "\<not> given (cli_image ?t) \<and> \<not> given (cli_file ?t)" by (simp add: every_cli_def)
  have e1: "every_cli\<lparr>cli_message := None, cli_file := None\<rparr> = image_cli"
    by (simp add: every_cli_def image_cli_def)
  have e2: "?f\<lparr>cli_message := None, cli_image := None\<rparr>
      = \<lparr>cli_message = None, cli_to = None, cli_image = None, cli_file = Some ''a.png''\<rparr>"
    by (simp add: every_cli_def)
  have e3: "?t\<lparr>cli_image := None, cli_file := None\<rparr> = text_cli"
    by (simp add: every_cli_def text_cli_def)
  from precedence_image_file_text[of every_cli ?w] g1 have "main ?w every_cli = main ?w (every_cli\<lparr>cli_message := None, cli_file := None\<rparr>)"
    by blast
  then have r1: "main ?w every_cli = main ?w image_cli" by (simp only: e1)
  from precedence_image_file_text[of ?f ?w] g2 have "main ?w ?f = main ?w (?f\<lparr>cli_message := None, cli_image := None\<rparr>)"
    by blast
  then have r2: "main ?w ?f = main ?w \<lparr>cli_message = None, cli_to = None, cli_image = None, cli_file = Some ''a.png''\<rparr>"
    by (simp only: e2)
  from precedence_image_file_text[of ?t ?w] g3 have "main ?w ?t = main ?w (?t\<lparr>cli_image := None, cli_file := None\<rparr>)"
    by blast
  then have r3: "main ?w ?t = main ?w text_cli" by (simp only: e3)
  from g1 g2 g3 show ?thesis
    by (simp only: r1 r2 r3 run_image_ok run_file_ok run_text_ok run.simps) simp
qed

section \<open>The recipient\<close>

lemma drop_touser_send_request:
  "mt \<noteq> ''touser'' \<Longrightarrow>
   drop_touser (op, send_request token (message_payload mt agent_id to_user key v)) =
     (op, send_request token (JObj [(''msgtype'', JStr mt), (''agentid'', JInt agent_id),
                                    (mt, JObj [(key, v)]), (''safe'', JInt 0)]))"
  by (simp add: drop_touser_def send_request_def message_payload_def)

lemma drop_touser_send_text:
  "map drop_touser (snd (send_text w token agent_id to_user text op)) =
     [(op, send_request token (JObj [(''msgtype'', JStr ''text''), (''agentid'', JInt agent_id),
                                     (''text'', JObj [(''content'', text)]), (''safe'', JInt 0)]))]"
  by (simp add: send_text_exchange exchange_def drop_touser_send_request)

lemma drop_touser_send_media:
  "kind = ''image'' \<or> kind = ''file'' \<Longrightarrow>
   map drop_touser (snd (send_media kind w token agent_id to_user media_id op)) =
     [(op, send_request token (JObj [(''msgtype'', JStr kind), (''agentid'', JInt agent_id),
                                     (kind, JObj [(''media_id'', media_id)]), (''safe'', JInt 0)]))]"
  by (auto simp: send_media_def send_image_exchange send_file_exchange exchange_def drop_touser_send_request)

lemma attachment_cli_to [simp]: "attachment (c\<lparr>cli_to := t\<rparr>) = attachment c"
  by (simp add: attachment_def)

lemma main_retarget:
  "map drop_touser (calls (main w (c\<lparr>cli_to := t\<rparr>))) = map drop_touser (calls (main w c))"
proof (cases "\<not> given (cli_message c) \<and> \<not> given (cli_image c) \<and> \<not> given (cli_file c)")
  case True
  then show ?thesis by (simp add: main_calls)
next
  case False
  show ?thesis
  proof (cases "load_config w")
    case (Inl f)
    with False show ?thesis by (auto simp: main_calls)
  next
    case (Inr cfg)
    obtain corp_id corp_secret agent_id proxy where cfg: "load_config w = Inr (corp_id, corp_secret, agent_id, proxy)"
      using Inr by (cases cfg) auto
    obtain res1 c1 where t: "get_access_token w corp_id corp_secret (opener_of proxy) = (res1, c1)"
      by (cases "get_access_token w corp_id corp_secret (opener_of proxy)") auto
    show ?thesis
    proof (cases res1)
      case (Inl f)
      with False cfg t show ?thesis by (auto simp: main_calls)
    next
      case tok: (Inr token)
      show ?thesis
      proof (cases "attachment c")
        case None
        with False cfg t tok show ?thesis by (auto simp: main_calls drop_touser_send_text)
      next
        case (Some a)
        obtain kind path where a: "attachment c = Some (kind, path)" using Some by (cases a) auto
        note k = attachment_kind[OF a]
        obtain res2 c2 where u: "upload_media w token path kind (opener_of proxy) = (res2, c2)"
          by (cases "upload_media w token path kind (opener_of proxy)") auto
        show ?thesis
        proof (cases res2)
          case (Inl f)
          with False cfg t tok a u show ?thesis by (auto simp: main_calls)
        next
          case (Inr media_id)
          with False cfg t tok a u show ?thesis
            by (auto simp: main_calls drop_touser_send_media[OF k])
        qed
      qed
    qed
  qed
qed

lemma main_touser:
  assumes "x \<in> set (calls (main w c))" "payload x = Some p"
  shows "py_index p ''touser'' = Inr (JStr (args_to (parse_args c)))"
proof -
  have text_case: ?thesis
    if tok: "get_access_token w corp_id corp_secret op = (Inr token, c1)"
      and snd: "send_text w token agent_id (args_to (parse_args c)) (arg_value (cli_message c)) op = (res, c3)"
      and calls: "calls (main w c) = c1 @ c3"
    for corp_id corp_secret op token c1 agent_id res c3
  proof -
    have "x \<notin> set c1" using get_access_token_payload[OF tok, of x] assms(2) by auto
    with assms(1) calls have "x \<in> set c3" by simp
    with send_text_request[OF snd] assms(2) show ?thesis by (auto simp: message_payload_fields)
  qed
  have media_case: ?thesis
    if tok: "get_access_token w corp_id corp_secret op = (Inr token, c1)"
      and att: "attachment c = Some (kind, path)"
      and up: "upload_media w token path kind op = (Inr media_id, c2)"
      and snd: "send_media kind w token agent_id (args_to (parse_args c)) media_id op = (res, c3)"
      and calls: "calls (main w c) = c1 @ c2 @ c3"
    for corp_id corp_secret op token c1 kind path media_id c2 agent_id res c3
  proof -
    have "x \<notin> set c1" using get_access_token_payload[OF tok, of x] assms(2) by auto
    moreover have "x \<notin> set c2" using upload_media_payload[OF up, of x] assms(2) by auto
    ultimately have "x \<in> set c3" using assms(1) calls by simp
    with send_media_request[OF attachment_kind[OF att] snd] assms(2) show ?thesis
      by (auto simp: message_payload_fields)
  qed
  show ?thesis
  proof (cases rule: main_cases[of c w])
    case no_input
    with assms show ?thesis by (simp add: aborted_def)
  next
    case (config_failed f)
    with assms show ?thesis by (simp add: aborted_def)
  next
    case (token_failed corp_id corp_secret agent_id proxy f c1)
    with assms get_access_token_payload[OF token_failed(2), of x] show ?thesis by (simp add: aborted_def)
  next
    case (upload_failed corp_id corp_secret agent_id proxy token c1 kind path f c2)
    with assms get_access_token_payload[OF upload_failed(2), of x] upload_media_payload[OF upload_failed(4), of x]
    show ?thesis by (auto simp: aborted_def)
  next
    case (media_send_failed corp_id corp_secret agent_id proxy token c1 kind path media_id c2 f c3)
    show ?thesis
      by (rule media_case[OF media_send_failed(2,3,4,5)]) (simp add: media_send_failed(6) aborted_def)
  next
    case (media_sent corp_id corp_secret agent_id proxy token c1 kind path media_id c2 kvs c3)
    show ?thesis
      by (rule media_case[OF media_sent(2,3,4,5)]) (simp add: media_sent(6))
  next
    case (text_send_failed corp_id corp_secret agent_id proxy token c1 f c3)
    show ?thesis
      by (rule text_case[OF text_send_failed(2,4)]) (simp add: text_send_failed(5) aborted_def)
  next
    case (text_sent corp_id corp_secret agent_id proxy token c1 kvs c3)
    show ?thesis
      by (rule text_case[OF text_sent(2,4)]) (simp add: text_sent(5))
  qed
qed

text \<open>
  C7. Without \<open>--to\<close> the recipient is \<open>"LiXueHeng"\<close>. In one and the same world (the
  same files, and a vendor that answers the same request alike), changing \<open>--to\<close> and
  nothing else changes nothing in the requests of the run but the \<open>touser\<close> field of
  the send payload: with that field taken out of every payload, the two runs issue the
  same requests in the same order, so \<open>msgtype\<close>, \<open>agentid\<close>, the message body and
  \<open>safe\<close> are the same. The \<open>touser\<close> field of a payload is the recipient.
\<close>

theorem recipient_changes_only_touser:
  "args_to (parse_args (c\<lparr>cli_to := None\<rparr>)) = ''LiXueHeng''
   \<and> map drop_touser (calls (main w (c\<lparr>cli_to := t\<rparr>))) = map drop_touser (calls (main w c))
   \<and> (\<forall>x p. x \<in> set (calls (main w c)) \<longrightarrow> payload x = Some p \<longrightarrow>
        py_index p ''touser'' = Inr (JStr (args_to (parse_args c))))"
  using main_retarget[where w=w and c=c and t=t] main_touser[where w=w and c=c] by (simp add: parse_args_def del: py_index.simps)

lemma run_text_all:
  "main (sample_world (config_with sample_vars) (vendor token_ok upload_ok send_ok)) (text_cli\<lparr>cli_to := Some ''@all''\<rparr>)
   = \<lparr>calls = [(Direct, token_request (JStr ''ww1'') (JStr ''s3'')),
               (Direct, send_request (JStr ''T0'') (message_payload ''text'' 1000002 ''@all'' ''content'' (JStr ''hi'')))],
      stdout = [JObj [(''ok'', JBool True), (''type'', JStr ''text''), (''to'', JStr ''@all''),
                      (''msgid'', JStr ''id0'')]],
      ending = None\<rparr>"
  by (simp add: sample_defs script_defs run_defs token_request_def send_request_def message_payload_def)

theorem recipient_changes_only_touser_witness:
  "args_to (parse_args (text_cli\<lparr>cli_to := None\<rparr>)) = ''LiXueHeng''
   \<and> (Direct, send_request (JStr ''T0'') (message_payload ''text'' 1000002 ''@all'' ''content'' (JStr ''hi'')))
       \<in> set (calls (main (sample_world (config_with sample_vars) (vendor token_ok upload_ok send_ok))
                          (text_cli\<lparr>cli_to := Some ''@all''\<rparr>)))
   \<and> payload (Direct, send_request (JStr ''T0'') (message_payload ''text'' 1000002 ''@all'' ''content'' (JStr ''hi'')))
       = Some (message_payload ''text'' 1000002 ''@all'' ''content'' (JStr ''hi''))
   \<and> py_index (message_payload ''text'' 1000002 ''@all'' ''content'' (JStr ''hi'')) ''touser'' = Inr (JStr ''@all'')
   \<and> map drop_touser (calls (main (sample_world (config_with sample_vars) (vendor token_ok upload_ok send_ok))
                                  (text_cli\<lparr>cli_to := Some ''@all''\<rparr>)))
       = map drop_touser (calls (main (sample_world (config_with sample_vars) (vendor token_ok upload_ok send_ok)) text_cli))"
proof -
  let ?w = "sample_world (config_with sample_vars) (vendor token_ok upload_ok send_ok)"
  let ?c = "text_cli\<lparr>cli_to := Some ''@all''\<rparr>"
  let ?p = "message_payload ''text'' 1000002 ''@all'' ''content'' (JStr ''hi'')"
  have a: "(Direct, send_request (JStr ''T0'') ?p) \<in> set (calls (main ?w ?c))" by (simp add: run_text_all)
  have b: "payload (Direct, send_request (JStr ''T0'') ?p) = Some ?p" by simp
  have t: "args_to (parse_args ?c) = ''@all''" by (simp add: parse_args_def text_cli_def)
  from recipient_changes_only_touser[where c = ?c and w = ?w] a b t
  have 1: "py_index ?p ''touser'' = Inr (JStr ''@all'')" by (auto simp del: py_index.simps)
  from recipient_changes_only_touser[where c = text_cli and w = ?w and t = "Some ''@all''"]
  have 2: "args_to (parse_args (text_cli\<lparr>cli_to := None\<rparr>)) = ''LiXueHeng''"
    and 3: "map drop_touser (calls (main ?w ?c)) = map drop_touser (calls (main ?w text_cli))"
    by blast+
  from a b 1 2 3 show ?thesis by blast
qed

section \<open>An answer without an error code\<close>

lemma exchange_lacking:
  assumes "exchange w op req prefix k = (res, cs)" "x \<in> set cs"
    "open_url w (fst x) (snd x) = Body (JObj kvs)" "map_of kvs ''errcode'' = None"
  shows "res = k (JObj kvs)"
proof -
  from exchange_calls[OF assms(1)] assms(2) have "x = (op, req)" by simp
  with exchange_no_errcode[OF assms(1) _ assms(4)] assms(3) show ?thesis by simp
qed

lemma get_access_token_lacking:
  assumes "get_access_token w corp_id corp_secret op = (res, cs)" "x \<in> set cs"
    "open_url w (fst x) (snd x) = Body (JObj kvs)" "map_of kvs ''errcode'' = None"
  shows "res = (case map_of kvs ''access_token'' of
                  None \<Rightarrow> Inl (Uncaught (KeyError ''access_token''))
                | Some t \<Rightarrow> Inr t)"
  using exchange_lacking[OF assms(1)[unfolded get_access_token_exchange] assms(2-4)]
  by (simp add: raising_def split: option.splits)

lemma upload_media_lacking:
  assumes "upload_media w token path kind op = (res, cs)" "x \<in> set cs"
    "open_url w (fst x) (snd x) = Body (JObj kvs)" "map_of kvs ''errcode'' = None"
  shows "res = (case map_of kvs ''media_id'' of
                  None \<Rightarrow> Inl (Uncaught (KeyError ''media_id''))
                | Some m \<Rightarrow> Inr m)"
proof -
  from assms(2) have ne: "cs \<noteq> []" by auto
  with assms(1) obtain p where p: "path = Some p" by (cases path) (auto simp: upload_media_def)
  from upload_media_exchange[OF assms(1)[unfolded p] ne] obtain req where
    "(res, cs) = exchange w op req ''Error uploading media: '' (\<lambda>data. raising (py_index data ''media_id'') Inr)"
    by blast
  then have "exchange w op req ''Error uploading media: '' (\<lambda>data. raising (py_index data ''media_id'') Inr) = (res, cs)"
    by simp
  from exchange_lacking[OF this assms(2-4)] show ?thesis
    by (simp add: raising_def split: option.splits)
qed

lemma send_text_lacking:
  assumes "send_text w token agent_id to_user text op = (res, cs)" "x \<in> set cs"
    "open_url w (fst x) (snd x) = Body (JObj kvs)" "map_of kvs ''errcode'' = None"
  shows "res = Inr (JObj kvs)"
  using exchange_lacking[OF assms(1)[unfolded send_text_exchange] assms(2-4)] by simp

lemma send_image_lacking:
  assumes "send_image w token agent_id to_user media_id op = (res, cs)" "x \<in> set cs"
    "open_url w (fst x) (snd x) = Body (JObj kvs)" "map_of kvs ''errcode'' = None"
  shows "res = Inr (JObj kvs)"
  using exchange_lacking[OF assms(1)[unfolded send_image_exchange] assms(2-4)] by simp

lemma send_file_lacking:
  assumes "send_file w token agent_id to_user media_id op = (res, cs)" "x \<in> set cs"
    "open_url w (fst x) (snd x) = Body (JObj kvs)" "map_of kvs ''errcode'' = None"
  shows "res = Inr (JObj kvs)"
  using exchange_lacking[OF assms(1)[unfolded send_file_exchange] assms(2-4)] by simp

lemma send_media_lacking:
  assumes "send_media kind w token agent_id to_user media_id op = (res, cs)" "x \<in> set cs"
    "open_url w (fst x) (snd x) = Body (JObj kvs)" "map_of kvs ''errcode'' = None"
  shows "res = Inr (JObj kvs)"
  using assms send_image_lacking send_file_lacking
  by (auto simp: send_media_def split: if_splits)

lemma main_send_lacking:
  assumes x: "x \<in> set (calls (main w c))" and e: "endpoint x = send_url"
    and reply: "open_url w (fst x) (snd x) = Body (JObj kvs)" and none: "map_of kvs ''errcode'' = None"
  shows "\<exists>line. py_index line ''msgid'' = Inr (case map_of kvs ''msgid'' of None \<Rightarrow> JStr [] | Some v \<Rightarrow> v)
           \<and> main w c = print_result w (calls (main w c)) line"
proof (cases rule: main_cases[of c w])
  case no_input
  with x show ?thesis by (simp add: aborted_def)
next
  case (config_failed f)
  with x show ?thesis by (simp add: aborted_def)
next
  case (token_failed corp_id corp_secret agent_id proxy f c1)
  with x single_endpoint[OF get_access_token_calls[OF token_failed(2)], of x] e show ?thesis
    by (auto simp: aborted_def)
next
  case (upload_failed corp_id corp_secret agent_id proxy token c1 kind path f c2)
  with x single_endpoint[OF get_access_token_calls[OF upload_failed(2)], of x]
    upload_media_calls_set[OF upload_failed(4), of x] e show ?thesis
    by (auto simp: aborted_def)
next
  case (media_send_failed corp_id corp_secret agent_id proxy token c1 kind path media_id c2 f c3)
  with x single_endpoint[OF get_access_token_calls[OF media_send_failed(2)], of x]
    upload_media_calls_set[OF media_send_failed(4), of x] e
  have "x \<in> set c3" by (auto simp: aborted_def)
  from send_media_lacking[OF media_send_failed(5) this reply none] show ?thesis by simp
next
  case (media_sent corp_id corp_secret agent_id proxy token c1 kind path media_id c2 kvs' c3)
  with x single_endpoint[OF get_access_token_calls[OF media_sent(2)], of x]
    upload_media_calls_set[OF media_sent(4), of x] e
  have "x \<in> set c3" by auto
  from send_media_lacking[OF media_sent(5) this reply none] have "kvs' = kvs" by simp
  with media_sent(6) show ?thesis
    by (intro exI[of _ "JObj [(''ok'', JBool True), (''type'', JStr kind),
          (''to'', JStr (args_to (parse_args c))), (''media_id'', media_id),
          (''msgid'', case map_of kvs ''msgid'' of None \<Rightarrow> JStr [] | Some v \<Rightarrow> v)]"]) simp
next
  case (text_send_failed corp_id corp_secret agent_id proxy token c1 f c3)
  with x single_endpoint[OF get_access_token_calls[OF text_send_failed(2)], of x] e
  have "x \<in> set c3" by (auto simp: aborted_def)
  from send_text_lacking[OF text_send_failed(4) this reply none] show ?thesis by simp
next
  case (text_sent corp_id corp_secret agent_id proxy token c1 kvs' c3)
  with x single_endpoint[OF get_access_token_calls[OF text_sent(2)], of x] e
  have "x \<in> set c3" by auto
  from send_text_lacking[OF text_sent(4) this reply none] have "kvs' = kvs" by simp
  with text_sent(5) show ?thesis
    by (intro exI[of _ "JObj [(''ok'', JBool True), (''type'', JStr ''text''),
          (''to'', JStr (args_to (parse_args c))),
          (''msgid'', case map_of kvs ''msgid'' of None \<Rightarrow> JStr [] | Some v \<Rightarrow> v)]"]) simp
qed

text \<open>
  C8, as the script has it. The token exchange answered by the empty JSON object: the
  \<open>errcode\<close> check passes, \<open>data["access_token"]\<close> raises KeyError, and the run
  stops there with status 1, the send request never issued.
\<close>

theorem empty_token_answer_aborts:
  "map_of ([] :: (string \<times> json) list) ''errcode'' = None
   \<and> open_url (sample_world (config_with sample_vars) (vendor (Body (JObj [])) upload_ok send_ok))
        Direct (token_request (JStr ''ww1'') (JStr ''s3'')) = Body (JObj [])
   \<and> main (sample_world (config_with sample_vars) (vendor (Body (JObj [])) upload_ok send_ok)) text_cli
       = \<lparr>calls = [(Direct, token_request (JStr ''ww1'') (JStr ''s3''))], stdout = [],
          ending = Some (Uncaught (KeyError ''access_token''))\<rparr>
   \<and> status (main (sample_world (config_with sample_vars) (vendor (Body (JObj [])) upload_ok send_ok)) text_cli) = 1"
  by (simp add: sample_defs script_defs run_defs token_request_def status_def)

text \<open>
  C8, amended. A JSON object without \<open>errcode\<close> passes the check of every stage
  (\<open>errcode\<close> defaults to 0), and no stage takes its error exit on it. Whenever one of
  the five network functions has issued a request and the answer is such an object,
  \<open>send_text\<close>, \<open>send_image\<close> and \<open>send_file\<close> return the answer, \<open>get_access_token\<close>
  returns its \<open>access_token\<close> and \<open>upload_media\<close> its \<open>media_id\<close> when the answer has
  that field, and raise an uncaught KeyError when it has not. A run whose send request
  is answered so goes on to \<open>print\<close> the result line, with the \<open>msgid\<close> of the answer
  or the empty string.
\<close>

theorem errcode_absent_passes_the_check:
  assumes none: "map_of kvs ''errcode'' = None"
  shows
   "(\<forall>res cs x. get_access_token w corp_id corp_secret op = (res, cs) \<longrightarrow> x \<in> set cs \<longrightarrow>
        open_url w (fst x) (snd x) = Body (JObj kvs) \<longrightarrow>
        res = (case map_of kvs ''access_token'' of
                 None \<Rightarrow> Inl (Uncaught (KeyError ''access_token''))
               | Some t \<Rightarrow> Inr t))
    \<and> (\<forall>res cs x. upload_media w token path kind op = (res, cs) \<longrightarrow> x \<in> set cs \<longrightarrow>
        open_url w (fst x) (snd x) = Body (JObj kvs) \<longrightarrow>
        res = (case map_of kvs ''media_id'' of
                 None \<Rightarrow> Inl (Uncaught (KeyError ''media_id''))
               | Some m \<Rightarrow> Inr m))
    \<and> (\<forall>res cs x. send_text w token agent_id to_user text op = (res, cs) \<longrightarrow> x \<in> set cs \<longrightarrow>
        open_url w (fst x) (snd x) = Body (JObj kvs) \<longrightarrow> res = Inr (JObj kvs))
    \<and> (\<forall>res cs x. send_image w token agent_id to_user media_id op = (res, cs) \<longrightarrow> x \<in> set cs \<longrightarrow>
        open_url w (fst x) (snd x) = Body (JObj kvs) \<longrightarrow> res = Inr (JObj kvs))
    \<and> (\<forall>res cs x. send_file w token agent_id to_user media_id op = (res, cs) \<longrightarrow> x \<in> set cs \<longrightarrow>
        open_url w (fst x) (snd x) = Body (JObj kvs) \<longrightarrow> res = Inr (JObj kvs))
    \<and> (\<forall>x. x \<in> set (calls (main w c)) \<longrightarrow> endpoint x = send_url \<longrightarrow>
          open_url w (fst x) (snd x) = Body (JObj kvs) \<longrightarrow>
          (\<exists>line. py_index line ''msgid'' = Inr (case map_of kvs ''msgid'' of None \<Rightarrow> JStr [] | Some v \<Rightarrow> v)
             \<and> main w c = print_result w (calls (main w c)) line))"
  using get_access_token_lacking[OF _ _ _ none] upload_media_lacking[OF _ _ _ none]
    send_text_lacking[OF _ _ _ none] send_image_lacking[OF _ _ _ none] send_file_lacking[OF _ _ _ none]
    main_send_lacking[OF _ _ _ none]
  by (intro conjI allI impI) blast+

theorem errcode_absent_passes_the_check_witness:
  "map_of [(''access_token'', JStr ''T0'')] ''errcode'' = None
   \<and> get_access_token (sample_world (config_with sample_vars)
                  (vendor (Body (JObj [(''access_token'', JStr ''T0'')])) upload_ok (Body (JObj [(''access_token'', JStr ''T0'')]))))
             (JStr ''ww1'') (JStr ''s3'') Direct = (Inr (JStr ''T0''), [(Direct, token_request (JStr ''ww1'') (JStr ''s3''))])
   \<and> open_url (sample_world (config_with sample_vars)
                  (vendor (Body (JObj [(''access_token'', JStr ''T0'')])) upload_ok (Body (JObj [(''access_token'', JStr ''T0'')]))))
        Direct (token_request (JStr ''ww1'') (JStr ''s3'')) = Body (JObj [(''access_token'', JStr ''T0'')])
   \<and> (Direct, send_request (JStr ''T0'') (message_payload ''text'' 1000002 ''LiXueHeng'' ''content'' (JStr ''hi'')))
       \<in> set (calls (main (sample_world (config_with sample_vars)
                  (vendor (Body (JObj [(''access_token'', JStr ''T0'')])) upload_ok (Body (JObj [(''access_token'', JStr ''T0'')]))))
                  text_cli))
   \<and> (\<exists>line. py_index line ''msgid'' = Inr (JStr [])
         \<and> main (sample_world (config_with sample_vars)
                  (vendor (Body (JObj [(''access_token'', JStr ''T0'')])) upload_ok (Body (JObj [(''access_token'', JStr ''T0'')]))))
                text_cli
             = \<lparr>calls = [(Direct, token_request (JStr ''ww1'') (JStr ''s3'')),
                         (Direct, send_request (JStr ''T0'')
                                    (message_payload ''text'' 1000002 ''LiXueHeng'' ''content'' (JStr ''hi'')))],
                stdout = [line], ending = None\<rparr>)"
proof -
  let ?kvs = "[(''access_token'', JStr ''T0'')]"
  let ?w = "sample_world (config_with sample_vars) (vendor (Body (JObj ?kvs)) upload_ok (Body (JObj ?kvs)))"
  let ?t = "(Direct, token_request (JStr ''ww1'') (JStr ''s3''))"
  let ?x = "(Direct, send_request (JStr ''T0'') (message_payload ''text'' 1000002 ''LiXueHeng'' ''content'' (JStr ''hi'')))"
  have n: "map_of ?kvs ''errcode'' = None" by simp
  obtain res where g: "get_access_token ?w (JStr ''ww1'') (JStr ''s3'') Direct = (res, [?t])"
    by (simp add: get_access_token_exchange exchange_def)
  have t: "open_url ?w (fst ?t) (snd ?t) = Body (JObj ?kvs)"
    by (simp add: sample_defs token_request_def)
  have r: "calls (main ?w text_cli) = [?t, ?x]"
    by (simp add: sample_defs script_defs run_defs token_request_def send_request_def message_payload_def)
  then have x: "?x \<in> set (calls (main ?w text_cli))" by simp
  have e: "endpoint ?x = send_url" by simp
  have s: "open_url ?w (fst ?x) (snd ?x) = Body (JObj ?kvs)"
    by (simp add: sample_defs send_request_def)
  note inst = errcode_absent_passes_the_check[OF n, where w = ?w and op = Direct and corp_id = "JStr ''ww1''"
      and corp_secret = "JStr ''s3''" and c = text_cli]
  from inst[THEN conjunct1, rule_format, OF g _ t] have "res = Inr (JStr ''T0'')" by simp
  with g have g': "get_access_token ?w (JStr ''ww1'') (JStr ''s3'') Direct = (Inr (JStr ''T0''), [?t])" by simp
  from inst[THEN conjunct2, THEN conjunct2, THEN conjunct2, THEN conjunct2, THEN conjunct2, rule_format, OF x e s]
  obtain line where
    l: "py_index line ''msgid'' = Inr (JStr [])" "main ?w text_cli = print_result ?w (calls (main ?w text_cli)) line"
    by auto
  have "print_line ?w line = None" by (simp add: sample_world_def)
  with l(2) r have "main ?w text_cli = \<lparr>calls = [?t, ?x], stdout = [line], ending = None\<rparr>"
    by (simp add: print_result_def)
  with n g' t x l(1) show ?thesis by auto
qed

section \<open>The agent id\<close>

lemma py_int_Inl: "py_int ios v = Inl e \<Longrightarrow> e \<in> {ValueError, TypeError, OverflowError}"
  by (cases "(ios, v)" rule: py_int.cases) (auto split: option.splits)

text \<open>
  C10, as the script has it. WECOM\_AGENT\_ID given as the JSON array \<open>[1]\<close> is present
  and truthy and \<open>int()\<close> cannot convert it, but the error it raises is TypeError, not
  ValueError.
\<close>

theorem list_agent_id_raises_type_error:
  "truthy (JArr [JInt 1])
   \<and> py_int (int_of_str (sample_world (config_with [(''WECOM_CORP_ID'', JStr ''ww1''), (''WECOM_CORP_SECRET'', JStr ''s3''),
                  (''WECOM_AGENT_ID'', JArr [JInt 1])]) (vendor token_ok upload_ok send_ok))) (JArr [JInt 1]) = Inl TypeError
   \<and> load_config (sample_world (config_with [(''WECOM_CORP_ID'', JStr ''ww1''), (''WECOM_CORP_SECRET'', JStr ''s3''),
                  (''WECOM_AGENT_ID'', JArr [JInt 1])]) (vendor token_ok upload_ok send_ok))
       = Inl (Uncaught TypeError)
   \<and> load_config (sample_world (config_with [(''WECOM_CORP_ID'', JStr ''ww1''), (''WECOM_CORP_SECRET'', JStr ''s3''),
                  (''WECOM_AGENT_ID'', JArr [JInt 1])]) (vendor token_ok upload_ok send_ok))
       \<noteq> Inl (Uncaught ValueError)"
  by (simp add: sample_defs script_defs)

text \<open>
  C10, amended. With WECOM\_CORP\_ID and WECOM\_CORP\_SECRET present and truthy and
  WECOM\_AGENT\_ID present and truthy but not convertible by \<open>int()\<close>, \<open>load_config\<close>
  ends in the uncaught error of that conversion, not in the missing-credentials exit:
  ValueError for a string, TypeError for a non-empty array or object, and in every case
  one of ValueError, TypeError and OverflowError. A credential that is present but falsy
  (the empty string, 0, \<open>false\<close>, \<open>null\<close>, an empty array or object) is treated as
  absent: \<open>load_config\<close> ends in the missing-credentials exit.
\<close>

theorem unconvertible_agent_id_raises:
  assumes cf: "config_file w = Parsed data" and ev: "env_vars data = Inr (JObj vars)"
  shows
    "(\<forall>a b v e. map_of vars ''WECOM_CORP_ID'' = Some a \<and> truthy a
          \<and> map_of vars ''WECOM_CORP_SECRET'' = Some b \<and> truthy b
          \<and> map_of vars ''WECOM_AGENT_ID'' = Some v \<and> truthy v
          \<and> py_int (int_of_str w) v = Inl e \<longrightarrow>
        load_config w = Inl (Uncaught e)
        \<and> e \<in> {ValueError, TypeError, OverflowError}
        \<and> ((\<exists>s. v = JStr s) \<longrightarrow> e = ValueError)
        \<and> ((\<exists>xs. v = JArr xs) \<or> (\<exists>kvs. v = JObj kvs) \<longrightarrow> e = TypeError))
     \<and> (\<forall>k v. k \<in> {''WECOM_CORP_ID'', ''WECOM_CORP_SECRET'', ''WECOM_AGENT_ID''}
          \<and> map_of vars k = Some v \<and> \<not> truthy v \<longrightarrow>
        load_config w = Inl (SysExit [Lit ''Error: Missing WECOM_CORP_ID/CORP_SECRET/AGENT_ID in config'']))"
proof (intro conjI allI impI)
  fix a b v e
  assume h: "map_of vars ''WECOM_CORP_ID'' = Some a \<and> truthy a
          \<and> map_of vars ''WECOM_CORP_SECRET'' = Some b \<and> truthy b
          \<and> map_of vars ''WECOM_AGENT_ID'' = Some v \<and> truthy v
          \<and> py_int (int_of_str w) v = Inl e"
  with cf ev show "load_config w = Inl (Uncaught e)"
    by (simp add: load_config_def raising_def)
  from h show "e \<in> {ValueError, TypeError, OverflowError}" by (blast dest: py_int_Inl)
  { assume "\<exists>s. v = JStr s"
    with h show "e = ValueError" by (auto split: option.splits) }
  { assume "(\<exists>xs. v = JArr xs) \<or> (\<exists>kvs. v = JObj kvs)"
    with h show "e = TypeError" by auto }
next
  fix k v
  assume "k \<in> {''WECOM_CORP_ID'', ''WECOM_CORP_SECRET'', ''WECOM_AGENT_ID''}
          \<and> map_of vars k = Some v \<and> \<not> truthy v"
  with cf ev show "load_config w = Inl (SysExit [Lit ''Error: Missing WECOM_CORP_ID/CORP_SECRET/AGENT_ID in config''])"
    by (auto simp: load_config_def raising_def split: option.splits)
qed

theorem unconvertible_agent_id_raises_witness:
  "config_file (sample_world (config_with [(''WECOM_CORP_ID'', JStr ''ww1''), (''WECOM_CORP_SECRET'', JStr []),
                  (''WECOM_AGENT_ID'', JStr ''12a'')]) (vendor token_ok upload_ok send_ok))
     = Parsed (JObj [(''env'', JObj [(''vars'', JObj [(''WECOM_CORP_ID'', JStr ''ww1''), (''WECOM_CORP_SECRET'', JStr []),
                  (''WECOM_AGENT_ID'', JStr ''12a'')])])])
   \<and> \<not> truthy (JStr [])
   \<and> load_config (sample_world (config_with [(''WECOM_CORP_ID'', JStr ''ww1''), (''WECOM_CORP_SECRET'', JStr []),
                  (''WECOM_AGENT_ID'', JStr ''12a'')]) (vendor token_ok upload_ok send_ok))
       = Inl (SysExit [Lit ''Error: Missing WECOM_CORP_ID/CORP_SECRET/AGENT_ID in config''])
   \<and> truthy (JStr ''12a'')
   \<and> py_int (int_of_str (sample_world (config_with [(''WECOM_CORP_ID'', JStr ''ww1''), (''WECOM_CORP_SECRET'', JStr ''s3''),
                  (''WECOM_AGENT_ID'', JStr ''12a'')]) (vendor token_ok upload_ok send_ok))) (JStr ''12a'') = Inl ValueError
   \<and> load_config (sample_world (config_with [(''WECOM_CORP_ID'', JStr ''ww1''), (''WECOM_CORP_SECRET'', JStr ''s3''),
                  (''WECOM_AGENT_ID'', JStr ''12a'')]) (vendor token_ok upload_ok send_ok))
       = Inl (Uncaught ValueError)"
proof -
  let ?v1 = "[(''WECOM_CORP_ID'', JStr ''ww1''), (''WECOM_CORP_SECRET'', JStr []), (''WECOM_AGENT_ID'', JStr ''12a'')]"
  let ?v2 = "[(''WECOM_CORP_ID'', JStr ''ww1''), (''WECOM_CORP_SECRET'', JStr ''s3''), (''WECOM_AGENT_ID'', JStr ''12a'')]"
  let ?w1 = "sample_world (config_with ?v1) (vendor token_ok upload_ok send_ok)"
  let ?w2 = "sample_world (config_with ?v2) (vendor token_ok upload_ok send_ok)"
  have c1: "config_file ?w1 = Parsed (JObj [(''env'', JObj [(''vars'', JObj ?v1)])])"
    by (simp add: sample_world_def config_with_def)
  have c2: "config_file ?w2 = Parsed (JObj [(''env'', JObj [(''vars'', JObj ?v2)])])"
    by (simp add: sample_world_def config_with_def)
  have e1: "env_vars (JObj [(''env'', JObj [(''vars'', JObj ?v1)])]) = Inr (JObj ?v1)" by (simp add: env_vars_def)
  have e2: "env_vars (JObj [(''env'', JObj [(''vars'', JObj ?v2)])]) = Inr (JObj ?v2)" by (simp add: env_vars_def)
  have p: "py_int (int_of_str ?w2) (JStr ''12a'') = Inl ValueError" by (simp add: sample_world_def)
  have k: "''WECOM_CORP_SECRET'' \<in> {''WECOM_CORP_ID'', ''WECOM_CORP_SECRET'', ''WECOM_AGENT_ID''}"
    "map_of ?v1 ''WECOM_CORP_SECRET'' = Some (JStr [])" "\<not> truthy (JStr [])" by simp_all
  from unconvertible_agent_id_raises[OF c1 e1] k
  have a: "load_config ?w1 = Inl (SysExit [Lit ''Error: Missing WECOM_CORP_ID/CORP_SECRET/AGENT_ID in config''])"
    by blast
  have m: "map_of ?v2 ''WECOM_CORP_ID'' = Some (JStr ''ww1'')" "truthy (JStr ''ww1'')"
    "map_of ?v2 ''WECOM_CORP_SECRET'' = Some (JStr ''s3'')" "truthy (JStr ''s3'')"
    "map_of ?v2 ''WECOM_AGENT_ID'' = Some (JStr ''12a'')" "truthy (JStr ''12a'')" by simp_all
  from unconvertible_agent_id_raises[OF c2 e2] m p
  have b: "load_config ?w2 = Inl (Uncaught ValueError)" by blast
  from c1 k(3) a m(6) p b show ?thesis by blast
qed

end
